theory Spec2Isabelle
  imports Complex_Main "HOL-Library.Sublist" "HOL-Library.Log_Nat"
begin

section \<open>rootCauseAI editor extension: command handlers, backend client, configuration\<close>

text \<open>
  The extension is asynchronous TypeScript that talks to two outside parties: the host
  editor (dialogs, panels, documents) and the backend HTTP service. A run of a command is
  modelled by the list of calls it makes on those parties, in order, together with the way
  it ends: \<open>Inr\<close> for a promise that resolves, \<open>Inl\<close> for one that rejects.
  The answers of the outside parties are read from an environment record, so that a
  statement about every environment is a statement about every behaviour of the host, the
  user and the backend.
\<close>

subsection \<open>JavaScript strings and values\<close>

text \<open>\<open>String.prototype.endsWith\<close>: the last \<open>length suf\<close> units of \<open>s\<close> are \<open>suf\<close>.\<close>

definition endsWith :: "string \<Rightarrow> string \<Rightarrow> bool" where
  "endsWith s suf =
     (length suf \<le> length s \<and> drop (length s - length suf) s = suf)"

text \<open>\<open>text.replace(/c/g, r)\<close> for a single character \<open>c\<close>.\<close>

definition replace_all :: "char \<Rightarrow> string \<Rightarrow> string \<Rightarrow> string" where
  "replace_all c r text = concat (map (\<lambda>x. if x = c then r else [x]) text)"

text \<open>Decimal digits of a natural number, as a template literal prints an index.\<close>

definition digit_char :: "nat \<Rightarrow> char" where
  "digit_char d = char_of (48 + d)"

fun show_nat :: "nat \<Rightarrow> string" where
  "show_nat n =
     (if n < 10 then [digit_char n] else show_nat (n div 10) @ [digit_char (n mod 10)])"

declare show_nat.simps [simp del]


text \<open>
  A value as \<open>JSON.parse\<close> delivers it (the body of an untyped HTTP response). An object is
  the list of its own properties, each key once.
\<close>

datatype jsval =
    JUndefined
  | JNull
  | JBool bool
  | JNum rat
  | JStr string
  | JArr "jsval list"
  | JObj "(string \<times> jsval) list"

text \<open>What is thrown and caught: an \<open>Error\<close> object, of which the code reads \<open>message\<close>.\<close>

datatype exn = Error (message: string)

text \<open>
  \<open>data.status\<close>: reading a property of \<open>null\<close> or \<open>undefined\<close> throws a TypeError;
  an object gives the property or \<open>undefined\<close>; a primitive or an array has no property
  of that name.
\<close>

definition get_status :: "jsval \<Rightarrow> exn + jsval" where
  "get_status data =
     (case data of
        JUndefined \<Rightarrow> Inl (Error ''Cannot read properties of undefined (reading status)'')
      | JNull \<Rightarrow> Inl (Error ''Cannot read properties of null (reading status)'')
      | JObj props \<Rightarrow> Inr (case map_of props ''status'' of None \<Rightarrow> JUndefined | Some v \<Rightarrow> v)
      | _ \<Rightarrow> Inr JUndefined)"

text \<open>
  \<open>v || d\<close> on an optional value of a known type: \<open>d\<close> when \<open>v\<close> is \<open>undefined\<close> or
  falsy. The falsy string is the empty one, the falsy number is zero.
\<close>

definition truthy_string :: "string \<Rightarrow> bool" where
  "truthy_string s = (s \<noteq> [])"

definition truthy_number :: "int \<Rightarrow> bool" where
  "truthy_number n = (n \<noteq> 0)"

definition truthy_boolean :: "bool \<Rightarrow> bool" where
  "truthy_boolean b = b"

definition js_or :: "('a \<Rightarrow> bool) \<Rightarrow> 'a option \<Rightarrow> 'a \<Rightarrow> 'a" where
  "js_or truthy v d = (case v of None \<Rightarrow> d | Some x \<Rightarrow> if truthy x then x else d)"

subsection \<open>Numbers: binary64 products and \<open>toFixed\<close>\<close>

text \<open>
  A finite JavaScript number is the rational it denotes. \<open>ilog2 x\<close> is the binary exponent
  of a positive \<open>x\<close>; \<open>round_to_double\<close> rounds to the nearest binary64 value, ties to the
  even significand, with 53 significant bits and the least exponent \<open>-1074\<close> (overflow to
  infinity, beyond \<open>2^1024\<close>, is not modelled). \<open>a * b\<close> is the rounded exact product.
\<close>

definition ilog2 :: "rat \<Rightarrow> int" where
  "ilog2 x =
     (if 1 \<le> x then int (floorlog 2 (nat \<lfloor>x\<rfloor>)) - 1
      else - int (floorlog 2 (nat (\<lceil>1 / x\<rceil> - 1))))"

definition round_half_even :: "rat \<Rightarrow> int" where
  "round_half_even y =
     (let f = \<lfloor>y\<rfloor>; r = y - of_int f
      in if r < 1 / 2 then f else if 1 / 2 < r then f + 1 else if even f then f else f + 1)"

definition round_to_double :: "rat \<Rightarrow> rat" where
  "round_to_double x =
     (if x = 0 then 0
      else let e = max (ilog2 \<bar>x\<bar> - 52) (- 1074);
               q = 2 powi e
           in sgn x * of_int (round_half_even (\<bar>x\<bar> / q)) * q)"

definition js_mul :: "rat \<Rightarrow> rat \<Rightarrow> rat" where
  "js_mul a b = round_to_double (a * b)"

text \<open>
  \<open>Number.prototype.toFixed(f)\<close> for \<open>\<bar>x\<bar> < 10^21\<close>: the integer \<open>n\<close> with \<open>n / 10^f\<close>
  nearest to \<open>x\<close>, the larger one on a tie, printed with \<open>f\<close> decimals. (From \<open>10^21\<close> on
  JavaScript prints an exponent; no number met here is that large.)
\<close>

definition toFixed :: "nat \<Rightarrow> rat \<Rightarrow> string" where
  "toFixed f x =
     (let a = \<bar>x\<bar>;
          n = nat \<lfloor>a * 10 ^ f + 1 / 2\<rfloor>;
          m = show_nat n;
          m' = (if f = 0 then m
                else let z = replicate (f + 1 - length m) CHR ''0'' @ m
                     in take (length z - f) z @ ''.'' @ drop (length z - f) z)
      in (if x < 0 then ''-'' else []) @ m')"

subsection \<open>backendClient.ts: the data of the HTTP interface\<close>

record FixSuggestion =
  file_path :: string
  original_snippet :: string
  new_snippet :: string
  explanation :: string
  confidence :: rat
  line_number :: "int option"

text \<open>\<open>parsed_error\<close> is untyped in the source; these are the fields the templates read.\<close>

record ParsedError =
  severity :: string
  language :: string
  category :: string
  error_type :: string
  error_text :: string
  framework :: "string option"

text \<open>
  \<open>fixes\<close> is optional here although the interface declares it required, because the
  command handlers test for its absence.
\<close>

record AnalyzeResponse =
  status :: string
  parsed_error :: "ParsedError option"
  root_cause_analysis :: "string option"
  "fixes" :: "FixSuggestion list option"
  execution_time :: "rat option"
  tokens_used :: int
  error_message :: "string option"

record ApplyFixResponse =
  success :: bool
  apply_message :: string
  fix_id :: "string option"

record UndoResponse =
  undo_success :: bool
  undo_message :: string

record HistoryItem =
  hist_fix_id :: string
  hist_file_path :: string
  timestamp :: string
  reverted :: bool

record Stats =
  total_fixes :: int
  active_fixes :: int
  reverted_count :: int
  files_modified :: int

subsection \<open>config.ts: the settings\<close>

text \<open>The \<open>rootcauseai\<close> section of the host's settings; \<open>None\<close> is a setting not stored.\<close>

record WorkspaceConfiguration =
  backendUrl :: "string option"
  provider :: "string option"
  maxRetries :: "int option"
  autoStartBackend :: "bool option"

definition getBackendUrl :: "WorkspaceConfiguration \<Rightarrow> string" where
  "getBackendUrl config = js_or truthy_string (backendUrl config) ''http://localhost:8000''"

definition getProvider :: "WorkspaceConfiguration \<Rightarrow> string" where
  "getProvider config = js_or truthy_string (provider config) ''gemini''"

definition getMaxRetries :: "WorkspaceConfiguration \<Rightarrow> int" where
  "getMaxRetries config = js_or truthy_number (maxRetries config) 2"

definition getAutoStartBackend :: "WorkspaceConfiguration \<Rightarrow> bool" where
  "getAutoStartBackend config = js_or truthy_boolean (autoStartBackend config) False"

subsection \<open>What a command does: calls on the host and the backend\<close>

record FixQuickPickItem =
  label :: string
  description :: string
  detail :: string
  "fix" :: FixSuggestion

datatype post_body =
    NoBody
  | AnalyzeBody string string string int
  | ApplyFixBody FixSuggestion string bool

text \<open>
  A panel's document is a template literal: fixed markup with holes. It is represented by
  the template and the values put into its holes, in the order of the source.
\<close>

record parsed_section =
  badge_severity :: string
  badge_language :: string
  badge_category :: string
  shown_type :: string
  shown_message :: string
  shown_framework :: "string option"

record fix_paragraph =
  fix_number :: string
  fix_explanation :: string
  fix_confidence :: string

record history_row =
  cell_fix_id :: string
  cell_file :: string
  cell_time :: string
  cell_class :: string
  cell_status :: string

datatype html =
    RootCauseHtml string
  | ExplanationHtml "parsed_section option" string "(string \<times> fix_paragraph list) option"
      string int
  | HistoryHtml "history_row list"
  | StatsHtml int int int int

datatype event =
    ShowInformationMessage string
  | ShowWarningMessage string
  | ShowErrorMessage string
  | ShowModalMessage string "string list"
  | WithProgress string
  | ProgressReport string
  | ShowInputBox string string
  | ShowQuickPick "FixQuickPickItem list" string
  | OpenTextDocumentContent string string
  | OpenTextDocumentPath string
  | ShowTextDocument string
  | ExecuteCommand string "string list"
  | CreateWebviewPanel string string
  | SetWebviewHtml html
  | ConsoleError string exn
  | HttpGet string "(string \<times> int) list"
  | HttpPost string post_body

text \<open>
  The environment: the settings, the editor's state, and the answer of the host, the user
  or the backend to each call (\<open>Inl\<close> when the call throws or its promise rejects).
\<close>

record env =
  settings :: WorkspaceConfiguration
  workspaceFolder :: "string option"
  selectedText :: "string option"
  get_root :: "exn + jsval"
  post_analyze :: "string \<Rightarrow> string \<Rightarrow> string \<Rightarrow> int \<Rightarrow> exn + AnalyzeResponse"
  post_apply_fix :: "FixSuggestion \<Rightarrow> string \<Rightarrow> bool \<Rightarrow> exn + ApplyFixResponse"
  post_undo :: "exn + UndoResponse"
  get_history :: "int \<Rightarrow> exn + HistoryItem list"
  get_stats :: "exn + Stats"
  input_box_answer :: "exn + string option"
  quick_pick_answer :: "FixQuickPickItem list \<Rightarrow> exn + FixQuickPickItem option"
  modal_answer :: "string \<Rightarrow> exn + string option"
  open_content :: "string \<Rightarrow> string \<Rightarrow> exn + string"
  open_path :: "string \<Rightarrow> exn + string"
  show_document :: "string \<Rightarrow> exn + unit"
  execute_command :: "string \<Rightarrow> string list \<Rightarrow> exn + unit"
  create_panel :: "string \<Rightarrow> exn + unit"
  toLocaleString :: "string \<Rightarrow> string"

text \<open>A run: the calls made, and the value returned or the exception thrown.\<close>

type_synonym 'a io = "event list \<times> (exn + 'a)"

definition io_return :: "'a \<Rightarrow> 'a io" where
  "io_return v = ([], Inr v)"

definition io_bind :: "'a io \<Rightarrow> ('a \<Rightarrow> 'b io) \<Rightarrow> 'b io" where
  "io_bind m f =
     (case m of
        (t, Inl e) \<Rightarrow> (t, Inl e)
      | (t, Inr v) \<Rightarrow> (case f v of (t', r) \<Rightarrow> (t @ t', r)))"

definition try_catch :: "'a io \<Rightarrow> (exn \<Rightarrow> 'a io) \<Rightarrow> 'a io" where
  "try_catch m handler =
     (case m of
        (t, Inl e) \<Rightarrow> (case handler e of (t', r) \<Rightarrow> (t @ t', r))
      | (t, Inr v) \<Rightarrow> (t, Inr v))"

definition emit :: "event \<Rightarrow> unit io" where
  "emit ev = ([ev], Inr ())"

definition call :: "event \<Rightarrow> exn + 'a \<Rightarrow> 'a io" where
  "call ev answer = ([ev], answer)"

definition lift :: "exn + 'a \<Rightarrow> 'a io" where
  "lift r = ([], r)"

subsection \<open>notifications.ts\<close>

definition showInfo :: "string \<Rightarrow> unit io" where
  "showInfo msg = emit (ShowInformationMessage (''rootCauseAI: '' @ msg))"

definition showWarning :: "string \<Rightarrow> unit io" where
  "showWarning msg = emit (ShowWarningMessage (''rootCauseAI: '' @ msg))"

definition showError :: "string \<Rightarrow> unit io" where
  "showError msg = emit (ShowErrorMessage (''rootCauseAI: '' @ msg))"

text \<open>\<open>withProgress\<close> runs the unit of work and hands its result, or its exception, through.\<close>

definition showProgress :: "string \<Rightarrow> 'a io \<Rightarrow> 'a io" where
  "showProgress title task =
     io_bind (emit (WithProgress (''rootCauseAI: '' @ title))) (\<lambda>_. task)"

definition showQuickPick ::
  "env \<Rightarrow> FixQuickPickItem list \<Rightarrow> string \<Rightarrow> FixQuickPickItem option io" where
  "showQuickPick env items placeHolder =
     call (ShowQuickPick items placeHolder) (quick_pick_answer env items)"

definition showInputBox :: "env \<Rightarrow> string \<Rightarrow> string \<Rightarrow> string option io" where
  "showInputBox env prompt placeHolder =
     call (ShowInputBox prompt placeHolder) (input_box_answer env)"

definition confirm :: "env \<Rightarrow> string \<Rightarrow> bool io" where
  "confirm env msg =
     io_bind
       (call (ShowModalMessage (''rootCauseAI: '' @ msg) [''Yes'', ''No''])
          (modal_answer env (''rootCauseAI: '' @ msg)))
       (\<lambda>result. io_return (result = Some ''Yes''))"

subsection \<open>backendClient.ts: the client\<close>

definition checkHealth :: "env \<Rightarrow> bool io" where
  "checkHealth env =
     try_catch
       (io_bind (call (HttpGet ''/'' []) (get_root env)) (\<lambda>data.
        io_bind (lift (get_status data)) (\<lambda>st.
        io_return (st = JStr ''running''))))
       (\<lambda>error. io_return False)"

definition analyzeError :: "env \<Rightarrow> string \<Rightarrow> string \<Rightarrow> AnalyzeResponse io" where
  "analyzeError env errorLog projRoot =
     (let p = getProvider (settings env); r = getMaxRetries (settings env)
      in call (HttpPost ''/analyze'' (AnalyzeBody errorLog projRoot p r))
           (post_analyze env errorLog projRoot p r))"

definition BackendClient_applyFix ::
  "env \<Rightarrow> FixSuggestion \<Rightarrow> string \<Rightarrow> bool \<Rightarrow> ApplyFixResponse io" where
  "BackendClient_applyFix env f lang dryRun =
     call (HttpPost ''/apply-fix'' (ApplyFixBody f lang dryRun))
       (post_apply_fix env f lang dryRun)"

definition undoLastFix :: "env \<Rightarrow> UndoResponse io" where
  "undoLastFix env = call (HttpPost ''/undo'' NoBody) (post_undo env)"

definition getHistory :: "env \<Rightarrow> int \<Rightarrow> HistoryItem list io" where
  "getHistory env count =
     call (HttpGet ''/history'' [(''count'', count)]) (get_history env count)"


text \<open>\<open>vscode.workspace.workspaceFolders?.[0]?.uri.fsPath || '.'\<close>\<close>

definition projectRoot :: "env \<Rightarrow> string" where
  "projectRoot env = js_or truthy_string (workspaceFolder env) ''.''"

subsection \<open>fixError.ts\<close>

definition detectLanguage :: "string \<Rightarrow> string" where
  "detectLanguage filePath =
     (if endsWith filePath ''.py'' then ''python''
      else if endsWith filePath ''.js'' \<or> endsWith filePath ''.jsx'' then ''javascript''
      else if endsWith filePath ''.ts'' \<or> endsWith filePath ''.tsx'' then ''typescript''
      else ''python'')"

definition escapeHtml :: "string \<Rightarrow> string" where
  "escapeHtml text =
     replace_all (CHR 0x27) ''&#039;''
       (replace_all (CHR 0x22) ''&quot;''
         (replace_all CHR ''>'' ''&gt;''
           (replace_all CHR ''<'' ''&lt;''
             (replace_all CHR ''&'' ''&amp;'' text))))"

definition getErrorLog :: "env \<Rightarrow> string option io" where
  "getErrorLog env =
     showInputBox env ''Paste the error log'' ''Traceback (most recent call last)...''"

definition showRootCause :: "env \<Rightarrow> string \<Rightarrow> unit io" where
  "showRootCause env analysis =
     io_bind
       (call (CreateWebviewPanel ''rootCauseAnalysis'' ''Root Cause Analysis'')
          (create_panel env ''rootCauseAnalysis''))
       (\<lambda>_. emit (SetWebviewHtml (RootCauseHtml (escapeHtml analysis))))"

text \<open>\<open>Confidence: ${(fix.confidence * 100).toFixed(0)}%\<close>, as both templates write it.\<close>

definition confidenceText :: "rat \<Rightarrow> string" where
  "confidenceText c = ''Confidence: '' @ toFixed 0 (js_mul c 100) @ ''%''"

definition quickPickItems :: "FixSuggestion list \<Rightarrow> FixQuickPickItem list" where
  "quickPickItems fs =
     map (\<lambda>(index, f).
            \<lparr> label = ''$(tools) Fix '' @ show_nat (index + 1) @ '': '' @ file_path f,
              description = confidenceText (confidence f),
              detail = explanation f,
              fix = f \<rparr>)
         (enumerate 0 fs)"

text \<open>The title of the diff view is \<open>Original\<close>, a left-right arrow (U+2194), \<open>Fixed\<close>.\<close>

definition diffTitle :: string where
  "diffTitle = ''Original '' @ [CHR 0xE2, CHR 0x86, CHR 0x94] @ '' Fixed''"

definition showDiff :: "env \<Rightarrow> FixSuggestion \<Rightarrow> unit io" where
  "showDiff env f =
     io_bind
       (call (OpenTextDocumentContent (original_snippet f) (detectLanguage (file_path f)))
          (open_content env (original_snippet f) (detectLanguage (file_path f))))
       (\<lambda>originalDoc.
     io_bind
       (call (OpenTextDocumentContent (new_snippet f) (detectLanguage (file_path f)))
          (open_content env (new_snippet f) (detectLanguage (file_path f))))
       (\<lambda>fixedDoc.
     call (ExecuteCommand ''vscode.diff'' [originalDoc, fixedDoc, diffTitle])
       (execute_command env ''vscode.diff'' [originalDoc, fixedDoc, diffTitle])))"

text \<open>The body of the \<open>try\<close> block of \<open>FixErrorCommand.applyFix\<close>, then the method.\<close>

definition FixError_applyFix_try :: "env \<Rightarrow> FixSuggestion \<Rightarrow> unit io" where
  "FixError_applyFix_try env f =
     (let lang = detectLanguage (file_path f)
      in io_bind (showProgress ''Applying fix...'' (BackendClient_applyFix env f lang False))
           (\<lambda>result.
              if success result then
                io_bind
                  (showInfo (''Fix applied successfully! (ID: ''
                     @ (case fix_id result of None \<Rightarrow> ''undefined'' | Some i \<Rightarrow> i) @ '')''))
                  (\<lambda>_.
                io_bind
                  (call (OpenTextDocumentPath (file_path f)) (open_path env (file_path f)))
                  (\<lambda>doc. call (ShowTextDocument doc) (show_document env doc)))
              else showError (''Failed to apply fix: '' @ apply_message result)))"

definition FixError_applyFix :: "env \<Rightarrow> FixSuggestion \<Rightarrow> unit io" where
  "FixError_applyFix env f =
     try_catch (FixError_applyFix_try env f)
       (\<lambda>error. showError (''Error applying fix: '' @ message error))"

definition showAndApplyFixes ::
  "env \<Rightarrow> FixSuggestion list \<Rightarrow> string option \<Rightarrow> unit io" where
  "showAndApplyFixes env fs rootCause =
     io_bind (showQuickPick env (quickPickItems fs) ''Select a fix to apply'') (\<lambda>selected.
       case selected of
         None \<Rightarrow> io_return ()
       | Some sel \<Rightarrow>
           io_bind (showDiff env (fix sel)) (\<lambda>_.
           io_bind (confirm env ''Apply this fix to your code?'') (\<lambda>shouldApply.
             if \<not> shouldApply then io_return ()
             else FixError_applyFix env (fix sel))))"

text \<open>
  The branch of \<open>execute\<close> for an absent or empty \<open>fixes\<close>: a warning, and the root cause
  when \<open>result.root_cause_analysis\<close> is truthy.
\<close>

definition no_fixes :: "env \<Rightarrow> AnalyzeResponse \<Rightarrow> unit io" where
  "no_fixes env result =
     io_bind (showWarning ''No fixes generated. The error might be too complex.'') (\<lambda>_.
       case root_cause_analysis result of
         None \<Rightarrow> io_return ()
       | Some analysis \<Rightarrow>
           if truthy_string analysis then showRootCause env analysis else io_return ())"

text \<open>The body of the \<open>try\<close> block of \<open>FixErrorCommand.execute\<close>.\<close>

definition FixError_try :: "env \<Rightarrow> unit io" where
  "FixError_try env =
     io_bind (checkHealth env) (\<lambda>isHealthy.
       if \<not> isHealthy then
         showError
           ''Backend server is not running. Please start it with: python backend/server.py''
       else
         io_bind (getErrorLog env) (\<lambda>errorLog.
           case errorLog of
             None \<Rightarrow> showWarning ''No error log provided''
           | Some logText \<Rightarrow>
               if \<not> truthy_string logText then showWarning ''No error log provided''
               else
                 io_bind
                   (showProgress ''Analyzing error...''
                      (io_bind (emit (ProgressReport ''Parsing error...'')) (\<lambda>_.
                       io_bind (analyzeError env logText (projectRoot env)) (\<lambda>result.
                       io_bind (emit (ProgressReport ''Analysis complete!'')) (\<lambda>_.
                       io_return result)))))
                   (\<lambda>result.
                      if status result = ''failed'' then
                        showError
                          (js_or truthy_string (error_message result)
                             ''Failed to analyze error'')
                      else
                        case fixes result of
                          None \<Rightarrow> no_fixes env result
                        | Some fs \<Rightarrow>
                            if length fs = 0 then no_fixes env result
                            else showAndApplyFixes env fs (root_cause_analysis result))))"

definition FixError_execute :: "env \<Rightarrow> unit io" where
  "FixError_execute env =
     try_catch (FixError_try env)
       (\<lambda>error.
          io_bind (showError (''Error: '' @ message error)) (\<lambda>_.
          emit (ConsoleError ''Fix error command failed:'' error)))"

subsection \<open>explainError.ts\<close>






subsection \<open>undoFix.ts\<close>

definition UndoFix_try :: "env \<Rightarrow> unit io" where
  "UndoFix_try env =
     io_bind (confirm env ''Undo the last fix?'') (\<lambda>confirmed.
       if \<not> confirmed then io_return ()
       else
         io_bind (showProgress ''Undoing fix...'' (undoLastFix env)) (\<lambda>result.
           if undo_success result then showInfo (undo_message result)
           else showError (undo_message result)))"

definition UndoFix_execute :: "env \<Rightarrow> unit io" where
  "UndoFix_execute env =
     try_catch (UndoFix_try env) (\<lambda>error. showError (''Error: '' @ message error))"

subsection \<open>showHistory.ts\<close>

text \<open>
  The status cell starts with a red circle (U+1F534) or a check mark (U+2705); the date is
  formatted by the host's locale, which the environment supplies.
\<close>

definition getHistoryHtml :: "env \<Rightarrow> HistoryItem list \<Rightarrow> html" where
  "getHistoryHtml env history =
     HistoryHtml
       (map (\<lambda>item.
               \<lparr> cell_fix_id = hist_fix_id item,
                 cell_file = hist_file_path item,
                 cell_time = toLocaleString env (timestamp item),
                 cell_class = (if reverted item then ''reverted'' else ''active''),
                 cell_status =
                   (if reverted item
                    then [CHR 0xF0, CHR 0x9F, CHR 0x94, CHR 0xB4] @ '' Reverted''
                    else [CHR 0xE2, CHR 0x9C, CHR 0x85] @ '' Active'') \<rparr>)
            history)"

definition ShowHistory_try :: "env \<Rightarrow> unit io" where
  "ShowHistory_try env =
     io_bind (showProgress ''Loading history...'' (getHistory env 20)) (\<lambda>history.
       if length history = 0 then showInfo ''No fix history available''
       else
         io_bind
           (call (CreateWebviewPanel ''fixHistory'' ''Fix History'')
              (create_panel env ''fixHistory''))
           (\<lambda>_. emit (SetWebviewHtml (getHistoryHtml env history))))"

definition ShowHistory_execute :: "env \<Rightarrow> unit io" where
  "ShowHistory_execute env =
     try_catch (ShowHistory_try env) (\<lambda>error. showError (''Error: '' @ message error))"

subsection \<open>showStats.ts\<close>



subsection \<open>Reading a run\<close>

definition is_fix_selection :: "event \<Rightarrow> bool" where
  "is_fix_selection ev = (case ev of ShowQuickPick items ph \<Rightarrow> True | _ \<Rightarrow> False)"

definition is_apply_request :: "event \<Rightarrow> bool" where
  "is_apply_request ev = (case ev of HttpPost url body \<Rightarrow> url = ''/apply-fix'' | _ \<Rightarrow> False)"

definition is_backend_call :: "event \<Rightarrow> bool" where
  "is_backend_call ev =
     (case ev of HttpGet url params \<Rightarrow> True | HttpPost url body \<Rightarrow> True | _ \<Rightarrow> False)"

definition is_panel :: "event \<Rightarrow> bool" where
  "is_panel ev =
     (case ev of CreateWebviewPanel viewType title \<Rightarrow> True
      | SetWebviewHtml doc \<Rightarrow> True
      | _ \<Rightarrow> False)"

subsection \<open>A concrete environment\<close>

text \<open>
  The backend is up and proposes one fix; the user pastes a log, picks the first item of
  any list, and answers \<open>Yes\<close>; the host never fails. Other environments are written as
  updates of this one.
\<close>

definition demo_fix :: FixSuggestion where
  "demo_fix =
     \<lparr> file_path = ''src/app.py'',
       original_snippet = ''x = 1 / n'',
       new_snippet = ''x = 1 / n if n else 0'',
       explanation = ''guard the division'',
       confidence = 1 / 2,
       line_number = Some 3 \<rparr>"

definition demo_response :: AnalyzeResponse where
  "demo_response =
     \<lparr> status = ''success'',
       parsed_error = None,
       root_cause_analysis = Some ''n is zero'',
       fixes = Some [demo_fix],
       execution_time = Some 2,
       tokens_used = 120,
       error_message = None \<rparr>"

definition demo_env :: env where
  "demo_env =
     \<lparr> settings =
         \<lparr> backendUrl = None, provider = None, maxRetries = None, autoStartBackend = None \<rparr>,
       workspaceFolder = Some ''/home/u/proj'',
       selectedText = Some ''ZeroDivisionError'',
       get_root = Inr (JObj [(''status'', JStr ''running'')]),
       post_analyze = (\<lambda>errorLog projRoot p r. Inr demo_response),
       post_apply_fix =
         (\<lambda>f lang dryRun.
            Inr \<lparr> success = True, apply_message = ''ok'', fix_id = Some ''abc123'' \<rparr>),
       post_undo = Inr \<lparr> undo_success = True, undo_message = ''reverted'' \<rparr>,
       get_history = (\<lambda>count. Inr []),
       get_stats =
         Inr \<lparr> total_fixes = 3, active_fixes = 2, reverted_count = 1, files_modified = 2 \<rparr>,
       input_box_answer = Inr (Some ''ZeroDivisionError''),
       quick_pick_answer = (\<lambda>items. Inr (case items of [] \<Rightarrow> None | x # xs \<Rightarrow> Some x)),
       modal_answer = (\<lambda>msg. Inr (Some ''Yes'')),
       open_content = (\<lambda>content lang. Inr ''untitled:1''),
       open_path = (\<lambda>path. Inr path),
       show_document = (\<lambda>doc. Inr ()),
       execute_command = (\<lambda>cmd args. Inr ()),
       create_panel = (\<lambda>viewType. Inr ()),
       toLocaleString = (\<lambda>ts. ts) \<rparr>"

definition demo_history :: "HistoryItem list" where
  "demo_history =
     [\<lparr> hist_fix_id = ''abc123'', hist_file_path = ''src/app.py'',
        timestamp = ''2024-05-01T10:00:00'', reverted = False \<rparr>,
      \<lparr> hist_fix_id = ''def456'', hist_file_path = ''src/util.ts'',
        timestamp = ''2024-05-02T11:30:00'', reverted = True \<rparr>]"

subsection \<open>Names for parts of a run of the Fix command\<close>

text \<open>
  The answer of the backend to the analysis request that \<open>execute\<close> sends for a log, and
  the calls \<open>execute\<close> has made once that request is out. The remaining definitions are
  variants of the concrete environment.
\<close>

definition analysis_answer :: "env \<Rightarrow> string \<Rightarrow> exn + AnalyzeResponse" where
  "analysis_answer env errorLog =
     post_analyze env errorLog (projectRoot env) (getProvider (settings env))
       (getMaxRetries (settings env))"

definition analysis_calls :: "env \<Rightarrow> string \<Rightarrow> event list" where
  "analysis_calls env errorLog =
     [HttpGet ''/'' [],
      ShowInputBox ''Paste the error log'' ''Traceback (most recent call last)...'',
      WithProgress ''rootCauseAI: Analyzing error...'',
      ProgressReport ''Parsing error...'',
      HttpPost ''/analyze''
        (AnalyzeBody errorLog (projectRoot env) (getProvider (settings env))
           (getMaxRetries (settings env)))]"

definition answering :: "AnalyzeResponse \<Rightarrow> env" where
  "answering r = demo_env\<lparr>post_analyze := (\<lambda>errorLog projRoot p n. Inr r)\<rparr>"

definition failed_response :: AnalyzeResponse where
  "failed_response = demo_response\<lparr>status := ''failed'', error_message := Some ''quota exceeded''\<rparr>"

definition empty_cause_response :: AnalyzeResponse where
  "empty_cause_response = demo_response\<lparr>fixes := Some [], root_cause_analysis := Some []\<rparr>"

definition no_fix_response :: AnalyzeResponse where
  "no_fix_response = demo_response\<lparr>fixes := Some []\<rparr>"

definition declining :: env where
  "declining = demo_env\<lparr>modal_answer := (\<lambda>msg. Inr (Some ''No''))\<rparr>"

definition cancelling :: env where
  "cancelling = demo_env\<lparr>quick_pick_answer := (\<lambda>items. Inr None)\<rparr>"


section \<open>Properties\<close>

subsection \<open>Sequencing\<close>

lemma io_bind_Inl [simp]: "io_bind (t, Inl e) f = (t, Inl e)"
  by (simp add: io_bind_def)

lemma io_bind_Inr [simp]: "io_bind (t, Inr v) f = (t @ fst (f v), snd (f v))"
  by (simp add: io_bind_def split: prod.splits)

lemma try_catch_Inl [simp]: "try_catch (t, Inl e) h = (t @ fst (h e), snd (h e))"
  by (simp add: try_catch_def split: prod.splits)

lemma try_catch_Inr [simp]: "try_catch (t, Inr v) h = (t, Inr v)"
  by (simp add: try_catch_def)

subsection \<open>Backend client\<close>

lemma checkHealth_cases:
  "checkHealth env =
     ([HttpGet ''/'' []],
      Inr (case get_root env of Inl e \<Rightarrow> False
           | Inr data \<Rightarrow> get_status data = Inr (JStr ''running'')))"
  by (cases "get_root env"; cases "get_status (projr (get_root env))")
     (auto simp: checkHealth_def call_def lift_def io_return_def)

lemma get_status_running:
  "get_status data = Inr (JStr ''running'') \<longleftrightarrow>
     (\<exists>props. data = JObj props \<and> map_of props ''status'' = Some (JStr ''running''))"
  by (cases data) (auto simp: get_status_def split: option.splits)

text \<open>
  C2. \<open>checkHealth\<close> never throws: its run always ends in a boolean. When the request
  \<open>GET /\<close> fails the boolean is \<open>false\<close>; when a response arrives it is \<open>true\<close> exactly when
  the body is an object whose \<open>status\<close> property is the string \<open>running\<close>.
\<close>

theorem checkHealth_never_throws:
  "(\<exists>b. snd (checkHealth env) = Inr b)
   \<and> (\<forall>e. get_root env = Inl e \<longrightarrow> snd (checkHealth env) = Inr False)
   \<and> (\<forall>data. get_root env = Inr data \<longrightarrow>
         snd (checkHealth env) =
           Inr (\<exists>props. data = JObj props \<and> map_of props ''status'' = Some (JStr ''running'')))"
  by (simp add: checkHealth_cases get_status_running)

theorem checkHealth_never_throws_witness:
  "get_root (demo_env\<lparr>get_root := Inl (Error ''connect ECONNREFUSED'')\<rparr>)
     = Inl (Error ''connect ECONNREFUSED'')
   \<and> snd (checkHealth (demo_env\<lparr>get_root := Inl (Error ''connect ECONNREFUSED'')\<rparr>)) = Inr False
   \<and> get_root demo_env = Inr (JObj [(''status'', JStr ''running'')])
   \<and> snd (checkHealth demo_env) = Inr True
   \<and> get_root (demo_env\<lparr>get_root := Inr JNull\<rparr>) = Inr JNull
   \<and> snd (checkHealth (demo_env\<lparr>get_root := Inr JNull\<rparr>)) = Inr False"
  using checkHealth_never_throws [of "demo_env\<lparr>get_root := Inl (Error ''connect ECONNREFUSED'')\<rparr>"]
    checkHealth_never_throws [of demo_env]
    checkHealth_never_throws [of "demo_env\<lparr>get_root := Inr JNull\<rparr>"]
  by (simp add: demo_env_def)

subsection \<open>Language detection\<close>

lemma endsWith_suffix: "endsWith s suf \<longleftrightarrow> suffix suf s"
proof
  assume "endsWith s suf"
  then have "s = take (length s - length suf) s @ suf"
    by (metis append_take_drop_id endsWith_def)
  then show "suffix suf s"
    by (metis suffixI)
next
  assume "suffix suf s"
  then obtain p where "s = p @ suf"
    by (auto simp: suffix_def)
  then show "endsWith s suf"
    by (simp add: endsWith_def)
qed

text \<open>
  C7. \<open>detectLanguage\<close> is a total function of the path alone. A path ending in \<open>.py\<close>
  gives \<open>python\<close>; one ending in \<open>.js\<close> or \<open>.jsx\<close> gives \<open>javascript\<close>; one ending in
  \<open>.ts\<close> or \<open>.tsx\<close> gives \<open>typescript\<close>; every other path gives the default \<open>python\<close>.
  The six sample paths \<open>a.py\<close>, \<open>a.js\<close>, \<open>a.jsx\<close>, \<open>a.ts\<close>, \<open>a.tsx\<close>, \<open>a.txt\<close> are evaluated.
\<close>

theorem detectLanguage_table:
  "(suffix ''.py'' p \<longrightarrow> detectLanguage p = ''python'')
   \<and> (suffix ''.js'' p \<or> suffix ''.jsx'' p \<longrightarrow> detectLanguage p = ''javascript'')
   \<and> (suffix ''.ts'' p \<or> suffix ''.tsx'' p \<longrightarrow> detectLanguage p = ''typescript'')
   \<and> (\<not> suffix ''.py'' p \<and> \<not> suffix ''.js'' p \<and> \<not> suffix ''.jsx'' p
        \<and> \<not> suffix ''.ts'' p \<and> \<not> suffix ''.tsx'' p \<longrightarrow> detectLanguage p = ''python'')
   \<and> detectLanguage ''a.py'' = ''python''
   \<and> detectLanguage ''a.js'' = ''javascript''
   \<and> detectLanguage ''a.jsx'' = ''javascript''
   \<and> detectLanguage ''a.ts'' = ''typescript''
   \<and> detectLanguage ''a.tsx'' = ''typescript''
   \<and> detectLanguage ''a.txt'' = ''python''"
proof -
  have clash: "\<And>a b. suffix a p \<Longrightarrow> suffix b p \<Longrightarrow> \<not> suffix a b \<Longrightarrow> \<not> suffix b a \<Longrightarrow> False"
    using suffix_same_cases by blast
  have py_js: "\<not> (suffix ''.py'' p \<and> suffix ''.js'' p)"
    using clash [of "''.py''" "''.js''"] by (auto simp: suffix_to_prefix)
  have py_jsx: "\<not> (suffix ''.py'' p \<and> suffix ''.jsx'' p)"
    using clash [of "''.py''" "''.jsx''"] by (auto simp: suffix_to_prefix)
  have py_ts: "\<not> (suffix ''.py'' p \<and> suffix ''.ts'' p)"
    using clash [of "''.py''" "''.ts''"] by (auto simp: suffix_to_prefix)
  have py_tsx: "\<not> (suffix ''.py'' p \<and> suffix ''.tsx'' p)"
    using clash [of "''.py''" "''.tsx''"] by (auto simp: suffix_to_prefix)
  have js_ts: "\<not> (suffix ''.js'' p \<and> suffix ''.ts'' p)"
    using clash [of "''.js''" "''.ts''"] by (auto simp: suffix_to_prefix)
  have js_tsx: "\<not> (suffix ''.js'' p \<and> suffix ''.tsx'' p)"
    using clash [of "''.js''" "''.tsx''"] by (auto simp: suffix_to_prefix)
  have jsx_ts: "\<not> (suffix ''.jsx'' p \<and> suffix ''.ts'' p)"
    using clash [of "''.jsx''" "''.ts''"] by (auto simp: suffix_to_prefix)
  have jsx_tsx: "\<not> (suffix ''.jsx'' p \<and> suffix ''.tsx'' p)"
    using clash [of "''.jsx''" "''.tsx''"] by (auto simp: suffix_to_prefix)
  have general: "(suffix ''.py'' p \<longrightarrow> detectLanguage p = ''python'')
   \<and> (suffix ''.js'' p \<or> suffix ''.jsx'' p \<longrightarrow> detectLanguage p = ''javascript'')
   \<and> (suffix ''.ts'' p \<or> suffix ''.tsx'' p \<longrightarrow> detectLanguage p = ''typescript'')
   \<and> (\<not> suffix ''.py'' p \<and> \<not> suffix ''.js'' p \<and> \<not> suffix ''.jsx'' p
        \<and> \<not> suffix ''.ts'' p \<and> \<not> suffix ''.tsx'' p \<longrightarrow> detectLanguage p = ''python'')"
    unfolding detectLanguage_def endsWith_suffix
    using py_js py_jsx py_ts py_tsx js_ts js_tsx jsx_ts jsx_tsx by simp
  have samples: "detectLanguage ''a.py'' = ''python''
   \<and> detectLanguage ''a.js'' = ''javascript''
   \<and> detectLanguage ''a.jsx'' = ''javascript''
   \<and> detectLanguage ''a.ts'' = ''typescript''
   \<and> detectLanguage ''a.tsx'' = ''typescript''
   \<and> detectLanguage ''a.txt'' = ''python''"
    by (simp add: detectLanguage_def endsWith_def)
  from general samples show ?thesis by blast
qed

theorem detectLanguage_table_witness:
  "suffix ''.py'' ''backend/server.py'' \<and> detectLanguage ''backend/server.py'' = ''python''
   \<and> suffix ''.jsx'' ''ui/View.jsx'' \<and> detectLanguage ''ui/View.jsx'' = ''javascript''
   \<and> suffix ''.tsx'' ''src/App.tsx'' \<and> detectLanguage ''src/App.tsx'' = ''typescript''
   \<and> \<not> suffix ''.py'' ''notes.md'' \<and> \<not> suffix ''.js'' ''notes.md''
   \<and> \<not> suffix ''.jsx'' ''notes.md'' \<and> \<not> suffix ''.ts'' ''notes.md''
   \<and> \<not> suffix ''.tsx'' ''notes.md'' \<and> detectLanguage ''notes.md'' = ''python''"
  using detectLanguage_table [of "''backend/server.py''"]
    detectLanguage_table [of "''ui/View.jsx''"]
    detectLanguage_table [of "''src/App.tsx''"]
    detectLanguage_table [of "''notes.md''"]
  by (simp add: suffix_to_prefix)

subsection \<open>Configuration\<close>

text \<open>
  C10. Every accessor of \<open>Config\<close> returns its hard-coded default for a falsy stored value
  as well as for an absent one: \<open>getMaxRetries\<close> is 2 when 0 is stored, \<open>getBackendUrl\<close> is
  \<open>http://localhost:8000\<close> and \<open>getProvider\<close> is \<open>gemini\<close> when the empty string is stored,
  \<open>getAutoStartBackend\<close> is \<open>false\<close> when \<open>false\<close> is stored; any other stored value is
  returned as it is.
\<close>

theorem config_falsy_defaults:
  "getMaxRetries (config\<lparr>maxRetries := Some 0\<rparr>) = 2
   \<and> getBackendUrl (config\<lparr>backendUrl := Some ''''\<rparr>) = ''http://localhost:8000''
   \<and> getProvider (config\<lparr>provider := Some ''''\<rparr>) = ''gemini''
   \<and> getAutoStartBackend (config\<lparr>autoStartBackend := Some False\<rparr>) = False
   \<and> getMaxRetries (config\<lparr>maxRetries := None\<rparr>) = 2
   \<and> getBackendUrl (config\<lparr>backendUrl := None\<rparr>) = ''http://localhost:8000''
   \<and> getProvider (config\<lparr>provider := None\<rparr>) = ''gemini''
   \<and> getAutoStartBackend (config\<lparr>autoStartBackend := None\<rparr>) = False
   \<and> getMaxRetries config = (case maxRetries config of None \<Rightarrow> 2 | Some n \<Rightarrow> if n = 0 then 2 else n)
   \<and> getBackendUrl config =
       (case backendUrl config of None \<Rightarrow> ''http://localhost:8000''
        | Some u \<Rightarrow> if u = '''' then ''http://localhost:8000'' else u)
   \<and> getProvider config =
       (case provider config of None \<Rightarrow> ''gemini'' | Some p \<Rightarrow> if p = '''' then ''gemini'' else p)
   \<and> getAutoStartBackend config = (autoStartBackend config = Some True)"
  by (auto simp: getMaxRetries_def getBackendUrl_def getProvider_def getAutoStartBackend_def
      js_or_def truthy_number_def truthy_string_def truthy_boolean_def split: option.splits)

theorem config_falsy_defaults_witness:
  "getMaxRetries \<lparr> backendUrl = Some [], provider = Some [], maxRetries = Some 0,
        autoStartBackend = Some False \<rparr> = 2
   \<and> getBackendUrl \<lparr> backendUrl = Some [], provider = Some [], maxRetries = Some 0,
        autoStartBackend = Some False \<rparr> = ''http://localhost:8000''
   \<and> getProvider \<lparr> backendUrl = Some [], provider = Some [], maxRetries = Some 0,
        autoStartBackend = Some False \<rparr> = ''gemini''
   \<and> getMaxRetries \<lparr> backendUrl = Some ''http://10.0.0.5:9000'', provider = Some ''openai'',
        maxRetries = Some 5, autoStartBackend = Some True \<rparr> = 5
   \<and> getBackendUrl \<lparr> backendUrl = Some ''http://10.0.0.5:9000'', provider = Some ''openai'',
        maxRetries = Some 5, autoStartBackend = Some True \<rparr> = ''http://10.0.0.5:9000''"
  using config_falsy_defaults
    [of "\<lparr> backendUrl = Some [], provider = Some [], maxRetries = Some 0,
          autoStartBackend = Some False \<rparr>"]
    config_falsy_defaults
    [of "\<lparr> backendUrl = Some ''http://10.0.0.5:9000'', provider = Some ''openai'',
          maxRetries = Some 5, autoStartBackend = Some True \<rparr>"]
  by simp

subsection \<open>Undo\<close>

lemma confirm_run:
  "confirm env msg =
     ([ShowModalMessage (''rootCauseAI: '' @ msg) [''Yes'', ''No'']],
      case modal_answer env (''rootCauseAI: '' @ msg) of
        Inl e \<Rightarrow> Inl e | Inr a \<Rightarrow> Inr (a = Some ''Yes''))"
  by (cases "modal_answer env (''rootCauseAI: '' @ msg)")
     (simp_all add: confirm_def call_def io_return_def)

lemma UndoFix_execute_run:
  "UndoFix_execute env =
     (case modal_answer env ''rootCauseAI: Undo the last fix?'' of
        Inl e \<Rightarrow>
          ([ShowModalMessage ''rootCauseAI: Undo the last fix?'' [''Yes'', ''No''],
            ShowErrorMessage (''rootCauseAI: Error: '' @ message e)], Inr ())
      | Inr a \<Rightarrow>
          if a \<noteq> Some ''Yes'' then
            ([ShowModalMessage ''rootCauseAI: Undo the last fix?'' [''Yes'', ''No'']], Inr ())
          else
            ([ShowModalMessage ''rootCauseAI: Undo the last fix?'' [''Yes'', ''No''],
              WithProgress ''rootCauseAI: Undoing fix...'',
              HttpPost ''/undo'' NoBody,
              (case post_undo env of
                 Inl e \<Rightarrow> ShowErrorMessage (''rootCauseAI: Error: '' @ message e)
               | Inr r \<Rightarrow>
                   if undo_success r then ShowInformationMessage (''rootCauseAI: '' @ undo_message r)
                   else ShowErrorMessage (''rootCauseAI: '' @ undo_message r))],
             Inr ()))"
  by (cases "modal_answer env ''rootCauseAI: Undo the last fix?''"; cases "post_undo env")
     (simp_all add: UndoFix_execute_def UndoFix_try_def confirm_run showProgress_def
        undoLastFix_def emit_def call_def io_return_def showInfo_def showError_def)

text \<open>
  C6. In the Undo command, when the user does not answer \<open>Yes\<close> to the confirmation
  dialog (the answer is \<open>No\<close>, or the dialog is dismissed), \<open>execute\<close> returns at once:
  the dialog is the only call made, and no request goes to the backend. A backend request
  is made only after the answer \<open>Yes\<close>, and it is the single request \<open>POST /undo\<close>.
\<close>

theorem undo_declined_makes_no_backend_call:
  "(\<forall>a. modal_answer env ''rootCauseAI: Undo the last fix?'' = Inr a \<and> a \<noteq> Some ''Yes'' \<longrightarrow>
      UndoFix_execute env =
        ([ShowModalMessage ''rootCauseAI: Undo the last fix?'' [''Yes'', ''No'']], Inr ()))
   \<and> ((\<exists>ev \<in> set (fst (UndoFix_execute env)). is_backend_call ev) \<longrightarrow>
        modal_answer env ''rootCauseAI: Undo the last fix?'' = Inr (Some ''Yes'')
        \<and> take 3 (fst (UndoFix_execute env)) =
            [ShowModalMessage ''rootCauseAI: Undo the last fix?'' [''Yes'', ''No''],
             WithProgress ''rootCauseAI: Undoing fix...'',
             HttpPost ''/undo'' NoBody]
        \<and> filter is_backend_call (fst (UndoFix_execute env)) = [HttpPost ''/undo'' NoBody])"
  by (auto simp: UndoFix_execute_run is_backend_call_def split: sum.splits if_splits)

theorem undo_declined_makes_no_backend_call_witness:
  "modal_answer (demo_env\<lparr>modal_answer := (\<lambda>msg. Inr (Some ''No''))\<rparr>)
       ''rootCauseAI: Undo the last fix?'' = Inr (Some ''No'')
   \<and> Some ''No'' \<noteq> Some ''Yes''
   \<and> UndoFix_execute (demo_env\<lparr>modal_answer := (\<lambda>msg. Inr (Some ''No''))\<rparr>) =
        ([ShowModalMessage ''rootCauseAI: Undo the last fix?'' [''Yes'', ''No'']], Inr ())
   \<and> (\<exists>ev \<in> set (fst (UndoFix_execute demo_env)). is_backend_call ev)
   \<and> modal_answer demo_env ''rootCauseAI: Undo the last fix?'' = Inr (Some ''Yes'')
   \<and> filter is_backend_call (fst (UndoFix_execute demo_env)) = [HttpPost ''/undo'' NoBody]"
proof -
  let ?no = "demo_env\<lparr>modal_answer := (\<lambda>msg. Inr (Some ''No''))\<rparr>"
  have declined: "modal_answer ?no ''rootCauseAI: Undo the last fix?'' = Inr (Some ''No'')"
    by (simp add: demo_env_def)
  have called: "\<exists>ev \<in> set (fst (UndoFix_execute demo_env)). is_backend_call ev"
    by (simp add: UndoFix_execute_run demo_env_def is_backend_call_def)
  from undo_declined_makes_no_backend_call [of ?no] declined
  have "UndoFix_execute ?no =
      ([ShowModalMessage ''rootCauseAI: Undo the last fix?'' [''Yes'', ''No'']], Inr ())"
    by simp
  moreover from undo_declined_makes_no_backend_call [of demo_env] called
  have "modal_answer demo_env ''rootCauseAI: Undo the last fix?'' = Inr (Some ''Yes'')
    \<and> filter is_backend_call (fst (UndoFix_execute demo_env)) = [HttpPost ''/undo'' NoBody]"
    by blast
  ultimately show ?thesis using declined called by simp
qed

subsection \<open>History\<close>

lemma ShowHistory_execute_run:
  "ShowHistory_execute env =
     (case get_history env 20 of
        Inl e \<Rightarrow>
          ([WithProgress ''rootCauseAI: Loading history...'',
            HttpGet ''/history'' [(''count'', 20)],
            ShowErrorMessage (''rootCauseAI: Error: '' @ message e)], Inr ())
      | Inr h \<Rightarrow>
          if h = [] then
            ([WithProgress ''rootCauseAI: Loading history...'',
              HttpGet ''/history'' [(''count'', 20)],
              ShowInformationMessage ''rootCauseAI: No fix history available''], Inr ())
          else
            ([WithProgress ''rootCauseAI: Loading history...'',
              HttpGet ''/history'' [(''count'', 20)],
              CreateWebviewPanel ''fixHistory'' ''Fix History'',
              (case create_panel env ''fixHistory'' of
                 Inl e \<Rightarrow> ShowErrorMessage (''rootCauseAI: Error: '' @ message e)
               | Inr u \<Rightarrow> SetWebviewHtml (getHistoryHtml env h))], Inr ()))"
  by (cases "get_history env 20"; cases "create_panel env ''fixHistory''")
     (simp_all add: ShowHistory_execute_def ShowHistory_try_def showProgress_def
        getHistory_def emit_def call_def io_return_def showInfo_def showError_def)

text \<open>
  C9. ShowHistory makes one backend request, \<open>GET /history\<close> with \<open>count = 20\<close>. When the
  list returned is empty it shows the information message and returns, and no panel is
  created; a panel appears only for a non-empty list, and its table has one row per item,
  in the order of the list.
\<close>

theorem show_history_requests_20_and_skips_empty:
  "take 2 (fst (ShowHistory_execute env)) =
      [WithProgress ''rootCauseAI: Loading history...'', HttpGet ''/history'' [(''count'', 20)]]
   \<and> filter is_backend_call (fst (ShowHistory_execute env)) =
      [HttpGet ''/history'' [(''count'', 20)]]
   \<and> (get_history env 20 = Inr [] \<longrightarrow>
        ShowHistory_execute env =
          ([WithProgress ''rootCauseAI: Loading history...'',
            HttpGet ''/history'' [(''count'', 20)],
            ShowInformationMessage ''rootCauseAI: No fix history available''], Inr ()))
   \<and> ((\<exists>ev \<in> set (fst (ShowHistory_execute env)). is_panel ev) \<longrightarrow>
        (\<exists>h. get_history env 20 = Inr h \<and> h \<noteq> []))
   \<and> (\<forall>h. get_history env 20 = Inr h \<and> h \<noteq> [] \<and> create_panel env ''fixHistory'' = Inr () \<longrightarrow>
        ShowHistory_execute env =
          ([WithProgress ''rootCauseAI: Loading history...'',
            HttpGet ''/history'' [(''count'', 20)],
            CreateWebviewPanel ''fixHistory'' ''Fix History'',
            SetWebviewHtml (getHistoryHtml env h)], Inr ()))
   \<and> (\<exists>rows. getHistoryHtml env items = HistoryHtml rows
        \<and> length rows = length items
        \<and> map cell_fix_id rows = map hist_fix_id items
        \<and> map cell_file rows = map hist_file_path items
        \<and> map cell_time rows = map (\<lambda>i. toLocaleString env (timestamp i)) items
        \<and> map cell_class rows = map (\<lambda>i. if reverted i then ''reverted'' else ''active'') items)"
proof -
  have rows: "\<exists>rows. getHistoryHtml env items = HistoryHtml rows
        \<and> length rows = length items
        \<and> map cell_fix_id rows = map hist_fix_id items
        \<and> map cell_file rows = map hist_file_path items
        \<and> map cell_time rows = map (\<lambda>i. toLocaleString env (timestamp i)) items
        \<and> map cell_class rows = map (\<lambda>i. if reverted i then ''reverted'' else ''active'') items"
    by (simp add: getHistoryHtml_def comp_def)
  have run: "take 2 (fst (ShowHistory_execute env)) =
      [WithProgress ''rootCauseAI: Loading history...'', HttpGet ''/history'' [(''count'', 20)]]
   \<and> filter is_backend_call (fst (ShowHistory_execute env)) =
      [HttpGet ''/history'' [(''count'', 20)]]
   \<and> (get_history env 20 = Inr [] \<longrightarrow>
        ShowHistory_execute env =
          ([WithProgress ''rootCauseAI: Loading history...'',
            HttpGet ''/history'' [(''count'', 20)],
            ShowInformationMessage ''rootCauseAI: No fix history available''], Inr ()))
   \<and> ((\<exists>ev \<in> set (fst (ShowHistory_execute env)). is_panel ev) \<longrightarrow>
        (\<exists>h. get_history env 20 = Inr h \<and> h \<noteq> []))
   \<and> (\<forall>h. get_history env 20 = Inr h \<and> h \<noteq> [] \<and> create_panel env ''fixHistory'' = Inr () \<longrightarrow>
        ShowHistory_execute env =
          ([WithProgress ''rootCauseAI: Loading history...'',
            HttpGet ''/history'' [(''count'', 20)],
            CreateWebviewPanel ''fixHistory'' ''Fix History'',
            SetWebviewHtml (getHistoryHtml env h)], Inr ()))"
    by (auto simp: ShowHistory_execute_run is_backend_call_def is_panel_def
        split: sum.splits if_splits)
  from run rows show ?thesis by blast
qed

theorem show_history_requests_20_and_skips_empty_witness:
  "get_history demo_env 20 = Inr []
   \<and> ShowHistory_execute demo_env =
        ([WithProgress ''rootCauseAI: Loading history...'',
          HttpGet ''/history'' [(''count'', 20)],
          ShowInformationMessage ''rootCauseAI: No fix history available''], Inr ())
   \<and> get_history
        (demo_env\<lparr>get_history :=
           (\<lambda>count. if count = 20 then Inr demo_history else Inl (Error ''bad count''))\<rparr>) 20
        = Inr demo_history
   \<and> demo_history \<noteq> []
   \<and> create_panel
        (demo_env\<lparr>get_history :=
           (\<lambda>count. if count = 20 then Inr demo_history else Inl (Error ''bad count''))\<rparr>)
        ''fixHistory'' = Inr ()
   \<and> ShowHistory_execute
        (demo_env\<lparr>get_history :=
           (\<lambda>count. if count = 20 then Inr demo_history else Inl (Error ''bad count''))\<rparr>) =
        ([WithProgress ''rootCauseAI: Loading history...'',
          HttpGet ''/history'' [(''count'', 20)],
          CreateWebviewPanel ''fixHistory'' ''Fix History'',
          SetWebviewHtml
            (getHistoryHtml
               (demo_env\<lparr>get_history :=
                  (\<lambda>count. if count = 20 then Inr demo_history else Inl (Error ''bad count''))\<rparr>)
               demo_history)], Inr ())
   \<and> (\<exists>ev \<in> set (fst (ShowHistory_execute
          (demo_env\<lparr>get_history :=
             (\<lambda>count. if count = 20 then Inr demo_history else Inl (Error ''bad count''))\<rparr>))).
          is_panel ev)
   \<and> (\<exists>h. get_history
          (demo_env\<lparr>get_history :=
             (\<lambda>count. if count = 20 then Inr demo_history else Inl (Error ''bad count''))\<rparr>) 20
          = Inr h \<and> h \<noteq> [])"
proof -
  let ?env = "demo_env\<lparr>get_history :=
     (\<lambda>count. if count = 20 then Inr demo_history else Inl (Error ''bad count''))\<rparr>"
  have empty: "get_history demo_env 20 = Inr []"
    by (simp add: demo_env_def)
  have full: "get_history ?env 20 = Inr demo_history" "demo_history \<noteq> []"
    "create_panel ?env ''fixHistory'' = Inr ()"
    by (simp_all add: demo_env_def demo_history_def)
  from show_history_requests_20_and_skips_empty [of demo_env] empty
  have e: "ShowHistory_execute demo_env =
        ([WithProgress ''rootCauseAI: Loading history...'',
          HttpGet ''/history'' [(''count'', 20)],
          ShowInformationMessage ''rootCauseAI: No fix history available''], Inr ())"
    by blast
  from show_history_requests_20_and_skips_empty [of ?env] full
  have f: "ShowHistory_execute ?env =
        ([WithProgress ''rootCauseAI: Loading history...'',
          HttpGet ''/history'' [(''count'', 20)],
          CreateWebviewPanel ''fixHistory'' ''Fix History'',
          SetWebviewHtml (getHistoryHtml ?env demo_history)], Inr ())"
    by blast
  then have panel: "\<exists>ev \<in> set (fst (ShowHistory_execute ?env)). is_panel ev"
    by (simp add: is_panel_def)
  with show_history_requests_20_and_skips_empty [of ?env]
  have "\<exists>h. get_history ?env 20 = Inr h \<and> h \<noteq> []"
    by blast
  with e f panel empty full show ?thesis
    by simp
qed

subsection \<open>Fix command: the runs of its parts\<close>

lemma FixError_applyFix_try_run:
  "FixError_applyFix_try env f =
     (case post_apply_fix env f (detectLanguage (file_path f)) False of
        Inl e \<Rightarrow>
          ([WithProgress ''rootCauseAI: Applying fix...'',
            HttpPost ''/apply-fix'' (ApplyFixBody f (detectLanguage (file_path f)) False)], Inl e)
      | Inr result \<Rightarrow>
          if success result then
            (case open_path env (file_path f) of
               Inl e \<Rightarrow>
                 ([WithProgress ''rootCauseAI: Applying fix...'',
                   HttpPost ''/apply-fix'' (ApplyFixBody f (detectLanguage (file_path f)) False),
                   ShowInformationMessage (''rootCauseAI: Fix applied successfully! (ID: ''
                     @ (case fix_id result of None \<Rightarrow> ''undefined'' | Some i \<Rightarrow> i) @ '')''),
                   OpenTextDocumentPath (file_path f)], Inl e)
             | Inr doc \<Rightarrow>
                 ([WithProgress ''rootCauseAI: Applying fix...'',
                   HttpPost ''/apply-fix'' (ApplyFixBody f (detectLanguage (file_path f)) False),
                   ShowInformationMessage (''rootCauseAI: Fix applied successfully! (ID: ''
                     @ (case fix_id result of None \<Rightarrow> ''undefined'' | Some i \<Rightarrow> i) @ '')''),
                   OpenTextDocumentPath (file_path f),
                   ShowTextDocument doc], show_document env doc))
          else
            ([WithProgress ''rootCauseAI: Applying fix...'',
              HttpPost ''/apply-fix'' (ApplyFixBody f (detectLanguage (file_path f)) False),
              ShowErrorMessage (''rootCauseAI: Failed to apply fix: '' @ apply_message result)],
             Inr ()))"
  by (cases "post_apply_fix env f (detectLanguage (file_path f)) False";
      cases "open_path env (file_path f)")
     (simp_all add: FixError_applyFix_try_def showProgress_def BackendClient_applyFix_def
        emit_def call_def showInfo_def showError_def)

lemma showDiff_run:
  "showDiff env f =
     (case open_content env (original_snippet f) (detectLanguage (file_path f)) of
        Inl e \<Rightarrow>
          ([OpenTextDocumentContent (original_snippet f) (detectLanguage (file_path f))], Inl e)
      | Inr originalDoc \<Rightarrow>
          (case open_content env (new_snippet f) (detectLanguage (file_path f)) of
             Inl e \<Rightarrow>
               ([OpenTextDocumentContent (original_snippet f) (detectLanguage (file_path f)),
                 OpenTextDocumentContent (new_snippet f) (detectLanguage (file_path f))], Inl e)
           | Inr fixedDoc \<Rightarrow>
               ([OpenTextDocumentContent (original_snippet f) (detectLanguage (file_path f)),
                 OpenTextDocumentContent (new_snippet f) (detectLanguage (file_path f)),
                 ExecuteCommand ''vscode.diff'' [originalDoc, fixedDoc, diffTitle]],
                execute_command env ''vscode.diff'' [originalDoc, fixedDoc, diffTitle])))"
  by (cases "open_content env (original_snippet f) (detectLanguage (file_path f))";
      cases "open_content env (new_snippet f) (detectLanguage (file_path f))")
     (simp_all add: showDiff_def call_def)

lemma showAndApplyFixes_run:
  "showAndApplyFixes env fs rc =
     (case quick_pick_answer env (quickPickItems fs) of
        Inl e \<Rightarrow> ([ShowQuickPick (quickPickItems fs) ''Select a fix to apply''], Inl e)
      | Inr None \<Rightarrow> ([ShowQuickPick (quickPickItems fs) ''Select a fix to apply''], Inr ())
      | Inr (Some sel) \<Rightarrow>
          (case snd (showDiff env (fix sel)) of
             Inl e \<Rightarrow>
               (ShowQuickPick (quickPickItems fs) ''Select a fix to apply''
                  # fst (showDiff env (fix sel)), Inl e)
           | Inr u \<Rightarrow>
               (case modal_answer env ''rootCauseAI: Apply this fix to your code?'' of
                  Inl e \<Rightarrow>
                    (ShowQuickPick (quickPickItems fs) ''Select a fix to apply''
                       # fst (showDiff env (fix sel))
                       @ [ShowModalMessage ''rootCauseAI: Apply this fix to your code?''
                            [''Yes'', ''No'']], Inl e)
                | Inr a \<Rightarrow>
                    if a = Some ''Yes'' then
                      (ShowQuickPick (quickPickItems fs) ''Select a fix to apply''
                         # fst (showDiff env (fix sel))
                         @ ShowModalMessage ''rootCauseAI: Apply this fix to your code?''
                              [''Yes'', ''No'']
                         # fst (FixError_applyFix env (fix sel)),
                       snd (FixError_applyFix env (fix sel)))
                    else
                      (ShowQuickPick (quickPickItems fs) ''Select a fix to apply''
                         # fst (showDiff env (fix sel))
                         @ [ShowModalMessage ''rootCauseAI: Apply this fix to your code?''
                              [''Yes'', ''No'']], Inr ()))))"
proof (cases "quick_pick_answer env (quickPickItems fs)")
  case (Inl e)
  then show ?thesis
    by (simp add: showAndApplyFixes_def showQuickPick_def call_def)
next
  case (Inr selected)
  show ?thesis
  proof (cases selected)
    case None
    with Inr show ?thesis
      by (simp add: showAndApplyFixes_def showQuickPick_def call_def io_return_def)
  next
    case (Some sel)
    obtain t r where d: "showDiff env (fix sel) = (t, r)"
      by (cases "showDiff env (fix sel)")
    show ?thesis
    proof (cases r)
      case (Inl e)
      with Inr Some d show ?thesis
        by (simp add: showAndApplyFixes_def showQuickPick_def call_def)
    next
      case r: (Inr u)
      show ?thesis
      proof (cases "modal_answer env ''rootCauseAI: Apply this fix to your code?''")
        case (Inl e)
        with Inr Some d r show ?thesis
          by (simp add: showAndApplyFixes_def showQuickPick_def call_def confirm_run)
      next
        case m: (Inr a)
        with Inr Some d r show ?thesis
          by (simp add: showAndApplyFixes_def showQuickPick_def call_def confirm_run
              io_return_def)
      qed
    qed
  qed
qed

lemma no_fixes_run:
  "no_fixes env result =
     (case root_cause_analysis result of
        None \<Rightarrow>
          ([ShowWarningMessage ''rootCauseAI: No fixes generated. The error might be too complex.''],
           Inr ())
      | Some a \<Rightarrow>
          if a = [] then
            ([ShowWarningMessage
                ''rootCauseAI: No fixes generated. The error might be too complex.''], Inr ())
          else
            (case create_panel env ''rootCauseAnalysis'' of
               Inl e \<Rightarrow>
                 ([ShowWarningMessage
                     ''rootCauseAI: No fixes generated. The error might be too complex.'',
                   CreateWebviewPanel ''rootCauseAnalysis'' ''Root Cause Analysis''], Inl e)
             | Inr u \<Rightarrow>
                 ([ShowWarningMessage
                     ''rootCauseAI: No fixes generated. The error might be too complex.'',
                   CreateWebviewPanel ''rootCauseAnalysis'' ''Root Cause Analysis'',
                   SetWebviewHtml (RootCauseHtml (escapeHtml a))], Inr ())))"
  by (cases "root_cause_analysis result"; cases "create_panel env ''rootCauseAnalysis''")
     (simp_all add: no_fixes_def showWarning_def showRootCause_def emit_def call_def
        io_return_def truthy_string_def)

lemma FixError_try_run:
  "FixError_try env =
     (if snd (checkHealth env) \<noteq> Inr True then
        ([HttpGet ''/'' [],
          ShowErrorMessage
            ''rootCauseAI: Backend server is not running. Please start it with: python backend/server.py''],
         Inr ())
      else
        case input_box_answer env of
          Inl e \<Rightarrow>
            ([HttpGet ''/'' [],
              ShowInputBox ''Paste the error log'' ''Traceback (most recent call last)...''], Inl e)
        | Inr None \<Rightarrow>
            ([HttpGet ''/'' [],
              ShowInputBox ''Paste the error log'' ''Traceback (most recent call last)...'',
              ShowWarningMessage ''rootCauseAI: No error log provided''], Inr ())
        | Inr (Some errorLog) \<Rightarrow>
            if errorLog = [] then
              ([HttpGet ''/'' [],
                ShowInputBox ''Paste the error log'' ''Traceback (most recent call last)...'',
                ShowWarningMessage ''rootCauseAI: No error log provided''], Inr ())
            else
              case analysis_answer env errorLog of
                Inl e \<Rightarrow> (analysis_calls env errorLog, Inl e)
              | Inr result \<Rightarrow>
                  if status result = ''failed'' then
                    (analysis_calls env errorLog
                       @ [ProgressReport ''Analysis complete!'',
                          ShowErrorMessage
                            (''rootCauseAI: ''
                               @ js_or truthy_string (error_message result)
                                   ''Failed to analyze error'')], Inr ())
                  else
                    case fixes result of
                      None \<Rightarrow>
                        (analysis_calls env errorLog @ ProgressReport ''Analysis complete!''
                           # fst (no_fixes env result), snd (no_fixes env result))
                    | Some fs \<Rightarrow>
                        if fs = [] then
                          (analysis_calls env errorLog @ ProgressReport ''Analysis complete!''
                             # fst (no_fixes env result), snd (no_fixes env result))
                        else
                          (analysis_calls env errorLog @ ProgressReport ''Analysis complete!''
                             # fst (showAndApplyFixes env fs (root_cause_analysis result)),
                           snd (showAndApplyFixes env fs (root_cause_analysis result))))"
proof (cases "snd (checkHealth env) = Inr True")
  case False
  then show ?thesis
    by (simp add: FixError_try_def checkHealth_cases showError_def emit_def)
next
  case healthy: True
  then have h: "checkHealth env = ([HttpGet ''/'' []], Inr True)"
    by (simp add: checkHealth_cases)
  show ?thesis
  proof (cases "input_box_answer env")
    case (Inl e)
    with healthy h show ?thesis
      by (simp add: FixError_try_def getErrorLog_def showInputBox_def call_def)
  next
    case (Inr errorLog)
    show ?thesis
    proof (cases errorLog)
      case None
      with healthy h Inr show ?thesis
        by (simp add: FixError_try_def getErrorLog_def showInputBox_def call_def
            showWarning_def emit_def)
    next
      case (Some l)
      show ?thesis
      proof (cases "l = []")
        case True
        with healthy h Inr Some show ?thesis
          by (simp add: FixError_try_def getErrorLog_def showInputBox_def call_def
              showWarning_def emit_def truthy_string_def)
      next
        case nonempty: False
        show ?thesis
        proof (cases "analysis_answer env l")
          case (Inl e)
          with healthy h Inr Some nonempty show ?thesis
            by (simp add: FixError_try_def getErrorLog_def showInputBox_def call_def
                truthy_string_def showProgress_def emit_def analyzeError_def
                analysis_answer_def analysis_calls_def Let_def)
        next
          case a: (Inr result)
          obtain t1 r1 where nf: "no_fixes env result = (t1, r1)"
            by (cases "no_fixes env result")
          show ?thesis
          proof (cases "fixes result")
            case None
            with healthy h Inr Some nonempty a nf show ?thesis
              by (simp add: FixError_try_def getErrorLog_def showInputBox_def call_def
                  truthy_string_def showProgress_def emit_def analyzeError_def
                  analysis_answer_def analysis_calls_def Let_def io_return_def showError_def)
          next
            case fs: (Some fs)
            obtain t2 r2 where sa:
              "showAndApplyFixes env fs (root_cause_analysis result) = (t2, r2)"
              by (cases "showAndApplyFixes env fs (root_cause_analysis result)")
            from healthy h Inr Some nonempty a nf fs sa show ?thesis
              by (simp add: FixError_try_def getErrorLog_def showInputBox_def call_def
                  truthy_string_def showProgress_def emit_def analyzeError_def
                  analysis_answer_def analysis_calls_def Let_def io_return_def showError_def)
          qed
        qed
      qed
    qed
  qed
qed

lemma apply_request_is_backend_call: "is_apply_request ev \<Longrightarrow> is_backend_call ev"
  by (cases ev) (simp_all add: is_apply_request_def is_backend_call_def)

lemma FixError_applyFix_shape:
  "\<exists>rest.
     FixError_applyFix env f =
       (WithProgress ''rootCauseAI: Applying fix...''
          # HttpPost ''/apply-fix'' (ApplyFixBody f (detectLanguage (file_path f)) False)
          # rest, Inr ())
     \<and> (\<forall>ev \<in> set rest. \<not> is_backend_call ev \<and> \<not> is_fix_selection ev)"
proof (cases "post_apply_fix env f (detectLanguage (file_path f)) False")
  case (Inl e)
  then show ?thesis
    by (simp add: FixError_applyFix_def FixError_applyFix_try_run showError_def emit_def
        is_backend_call_def is_fix_selection_def)
next
  case (Inr result)
  show ?thesis
  proof (cases "success result")
    case False
    with Inr show ?thesis
      by (simp add: FixError_applyFix_def FixError_applyFix_try_run showError_def emit_def
          is_backend_call_def is_fix_selection_def)
  next
    case True
    show ?thesis
    proof (cases "open_path env (file_path f)")
      case (Inl e)
      with Inr True show ?thesis
        by (simp add: FixError_applyFix_def FixError_applyFix_try_run showError_def emit_def
            is_backend_call_def is_fix_selection_def)
    next
      case p: (Inr doc)
      with Inr True show ?thesis
        by (cases "show_document env doc")
          (simp_all add: FixError_applyFix_def FixError_applyFix_try_run showError_def
            emit_def is_backend_call_def is_fix_selection_def)
    qed
  qed
qed

lemma showDiff_quiet:
  "\<forall>ev \<in> set (fst (showDiff env f)). \<not> is_backend_call ev \<and> \<not> is_fix_selection ev"
  by (simp add: showDiff_run is_backend_call_def is_fix_selection_def split: sum.splits)

lemma showAndApplyFixes_shape:
  assumes "\<exists>ev \<in> set (fst (showAndApplyFixes env fs rc)). is_apply_request ev"
  shows "\<exists>sel between after.
     fst (showAndApplyFixes env fs rc) =
       ShowQuickPick (quickPickItems fs) ''Select a fix to apply'' # between
         @ ShowModalMessage ''rootCauseAI: Apply this fix to your code?'' [''Yes'', ''No'']
         # WithProgress ''rootCauseAI: Applying fix...''
         # HttpPost ''/apply-fix''
             (ApplyFixBody (fix sel) (detectLanguage (file_path (fix sel))) False)
         # after
     \<and> (\<forall>ev \<in> set (between @ after). \<not> is_apply_request ev)
     \<and> quick_pick_answer env (quickPickItems fs) = Inr (Some sel)
     \<and> modal_answer env ''rootCauseAI: Apply this fix to your code?'' = Inr (Some ''Yes'')"
proof -
  have quiet: "\<And>f ev. ev \<in> set (fst (showDiff env f)) \<Longrightarrow> \<not> is_apply_request ev"
    using showDiff_quiet apply_request_is_backend_call by blast
  from assms obtain sel a where
    sel: "quick_pick_answer env (quickPickItems fs) = Inr (Some sel)"
    and yes: "modal_answer env ''rootCauseAI: Apply this fix to your code?'' = Inr a"
      "a = Some ''Yes''"
    and diff: "\<exists>u. snd (showDiff env (fix sel)) = Inr u"
    by (auto simp: showAndApplyFixes_run is_apply_request_def
        split: sum.splits option.splits if_splits dest: quiet)
  from FixError_applyFix_shape [of env "fix sel"] obtain rest where
    rest: "FixError_applyFix env (fix sel) =
       (WithProgress ''rootCauseAI: Applying fix...''
          # HttpPost ''/apply-fix''
              (ApplyFixBody (fix sel) (detectLanguage (file_path (fix sel))) False)
          # rest, Inr ())"
      "\<forall>ev \<in> set rest. \<not> is_backend_call ev \<and> \<not> is_fix_selection ev"
    by blast
  from diff obtain u where u: "snd (showDiff env (fix sel)) = Inr u" ..
  have "fst (showAndApplyFixes env fs rc) =
       ShowQuickPick (quickPickItems fs) ''Select a fix to apply'' # fst (showDiff env (fix sel))
         @ ShowModalMessage ''rootCauseAI: Apply this fix to your code?'' [''Yes'', ''No'']
         # WithProgress ''rootCauseAI: Applying fix...''
         # HttpPost ''/apply-fix''
             (ApplyFixBody (fix sel) (detectLanguage (file_path (fix sel))) False)
         # rest"
    using sel yes u rest(1) by (simp add: showAndApplyFixes_run)
  moreover have "\<forall>ev \<in> set (fst (showDiff env (fix sel)) @ rest). \<not> is_apply_request ev"
    using quiet rest(2) apply_request_is_backend_call by auto
  ultimately show ?thesis using sel yes by blast
qed

lemma quickPickItems_order: "map fix (quickPickItems fs) = fs"
proof -
  have "map fix (quickPickItems fs) = map snd (enumerate 0 fs)"
    by (simp add: quickPickItems_def case_prod_beta comp_def)
  then show ?thesis by (simp add: map_snd_enumerate)
qed

lemma calls_quiet:
  "\<forall>ev \<in> set (analysis_calls env l). \<not> is_apply_request ev \<and> \<not> is_fix_selection ev"
  by (simp add: analysis_calls_def is_apply_request_def is_fix_selection_def)

lemma no_fixes_quiet:
  "\<forall>ev \<in> set (fst (no_fixes env result)). \<not> is_apply_request ev \<and> \<not> is_fix_selection ev"
  by (simp add: no_fixes_run is_apply_request_def is_fix_selection_def
      split: option.splits sum.splits)

lemma FixError_execute_trace:
  "fst (FixError_execute env) =
     fst (FixError_try env)
       @ (case snd (FixError_try env) of
            Inl e \<Rightarrow> [ShowErrorMessage (''rootCauseAI: Error: '' @ message e),
                       ConsoleError ''Fix error command failed:'' e]
          | Inr u \<Rightarrow> [])"
  by (cases "FixError_try env"; cases "snd (FixError_try env)")
     (simp_all add: FixError_execute_def showError_def emit_def)

lemma FixError_execute_returns: "snd (FixError_execute env) = Inr ()"
  by (cases "FixError_try env"; cases "snd (FixError_try env)")
     (simp_all add: FixError_execute_def showError_def emit_def)

lemma demo_healthy: "snd (checkHealth (answering r)) = Inr True"
  "snd (checkHealth demo_env) = Inr True"
  by (simp_all add: checkHealth_cases answering_def demo_env_def get_status_def)

lemma demo_pasted: "input_box_answer (answering r) = Inr (Some ''ZeroDivisionError'')"
  "input_box_answer demo_env = Inr (Some ''ZeroDivisionError'')"
  by (simp_all add: answering_def demo_env_def)

lemma demo_analysed: "analysis_answer (answering r) l = Inr r"
  "analysis_answer demo_env l = Inr demo_response"
  by (simp_all add: analysis_answer_def answering_def demo_env_def)

subsection \<open>Fix command: the three outcomes of an analysis\<close>

text \<open>
  C1. When the backend is healthy, a log was pasted and the analysis response has
  \<open>status = failed\<close>, \<open>execute\<close> makes the analysis calls, shows one error notification and
  returns. The notification is \<open>rootCauseAI: \<close> followed by \<open>error_message\<close> (so it carries
  \<open>error_message\<close> whenever the response has one; for an absent or empty one the text is
  \<open>Failed to analyze error\<close>). No quick pick is shown and no apply-fix request is made,
  whatever \<open>fixes\<close> holds.
\<close>

theorem failed_analysis_shows_error_only:
  assumes healthy: "snd (checkHealth env) = Inr True"
    and pasted: "input_box_answer env = Inr (Some errorLog)" "errorLog \<noteq> []"
    and analysed: "analysis_answer env errorLog = Inr result"
    and failed: "status result = ''failed''"
  shows "FixError_execute env =
           (analysis_calls env errorLog
              @ [ProgressReport ''Analysis complete!'',
                 ShowErrorMessage
                   (''rootCauseAI: ''
                      @ (case error_message result of
                           None \<Rightarrow> ''Failed to analyze error''
                         | Some m \<Rightarrow> if m = [] then ''Failed to analyze error'' else m))],
            Inr ())
         \<and> (\<forall>m. error_message result = Some m \<longrightarrow>
               (\<exists>text. last (fst (FixError_execute env)) = ShowErrorMessage text
                  \<and> suffix m text))
         \<and> \<not> (\<exists>ev \<in> set (fst (FixError_execute env)). is_fix_selection ev)
         \<and> \<not> (\<exists>ev \<in> set (fst (FixError_execute env)). is_apply_request ev)"
proof -
  let ?shown = "case error_message result of
                  None \<Rightarrow> ''Failed to analyze error''
                | Some m \<Rightarrow> if m = [] then ''Failed to analyze error'' else m"
  have body: "FixError_try env =
      (analysis_calls env errorLog
         @ [ProgressReport ''Analysis complete!'', ShowErrorMessage (''rootCauseAI: '' @ ?shown)],
       Inr ())"
    using assms
    by (simp add: FixError_try_run js_or_def truthy_string_def split: option.splits)
  from body have run: "FixError_execute env =
      (analysis_calls env errorLog
         @ [ProgressReport ''Analysis complete!'', ShowErrorMessage (''rootCauseAI: '' @ ?shown)],
       Inr ())"
    by (simp add: FixError_execute_def)
  have carried: "\<forall>m. error_message result = Some m \<longrightarrow> suffix m (''rootCauseAI: '' @ ?shown)"
    by (auto simp: suffix_def)
  have quiet: "\<not> (\<exists>ev \<in> set (fst (FixError_execute env)). is_fix_selection ev)"
    "\<not> (\<exists>ev \<in> set (fst (FixError_execute env)). is_apply_request ev)"
    using calls_quiet [of env errorLog]
    by (auto simp: run is_fix_selection_def is_apply_request_def)
  from run carried quiet show ?thesis by simp
qed

theorem failed_analysis_shows_error_only_witness:
  "snd (checkHealth (answering failed_response)) = Inr True
   \<and> input_box_answer (answering failed_response) = Inr (Some ''ZeroDivisionError'')
   \<and> analysis_answer (answering failed_response) ''ZeroDivisionError'' = Inr failed_response
   \<and> status failed_response = ''failed''
   \<and> fixes failed_response = Some [demo_fix]
   \<and> FixError_execute (answering failed_response) =
        (analysis_calls (answering failed_response) ''ZeroDivisionError''
           @ [ProgressReport ''Analysis complete!'',
              ShowErrorMessage ''rootCauseAI: quota exceeded''], Inr ())"
proof -
  have st: "status failed_response = ''failed''"
    "fixes failed_response = Some [demo_fix]"
    "error_message failed_response = Some ''quota exceeded''"
    by (simp_all add: failed_response_def demo_response_def)
  have ne: "''ZeroDivisionError'' \<noteq> []" by simp
  from failed_analysis_shows_error_only
    [OF demo_healthy(1) demo_pasted(1) ne demo_analysed(1) st(1)] st
  show ?thesis
    using demo_healthy(1) [of failed_response] demo_pasted(1) [of failed_response]
      demo_analysed(1) [of failed_response "''ZeroDivisionError''"]
    by simp
qed

text \<open>
  A response with no fixes whose \<open>root_cause_analysis\<close> is present but is the empty string:
  the run ends with the warning, and no panel is opened. The guard in the source is the
  truthiness of the field, not its presence.
\<close>

theorem root_cause_present_but_empty_counterexample:
  "snd (checkHealth (answering empty_cause_response)) = Inr True
   \<and> input_box_answer (answering empty_cause_response) = Inr (Some ''ZeroDivisionError'')
   \<and> analysis_answer (answering empty_cause_response) ''ZeroDivisionError''
        = Inr empty_cause_response
   \<and> status empty_cause_response \<noteq> ''failed''
   \<and> fixes empty_cause_response = Some []
   \<and> root_cause_analysis empty_cause_response = Some ''''
   \<and> FixError_execute (answering empty_cause_response) =
        (analysis_calls (answering empty_cause_response) ''ZeroDivisionError''
           @ [ProgressReport ''Analysis complete!'',
              ShowWarningMessage
                ''rootCauseAI: No fixes generated. The error might be too complex.''], Inr ())
   \<and> \<not> (\<exists>ev \<in> set (fst (FixError_execute (answering empty_cause_response))). is_panel ev)"
proof -
  have r: "status empty_cause_response \<noteq> ''failed''" "fixes empty_cause_response = Some []"
    "root_cause_analysis empty_cause_response = Some ''''"
    by (simp_all add: empty_cause_response_def demo_response_def)
  have run: "FixError_execute (answering empty_cause_response) =
        (analysis_calls (answering empty_cause_response) ''ZeroDivisionError''
           @ [ProgressReport ''Analysis complete!'',
              ShowWarningMessage
                ''rootCauseAI: No fixes generated. The error might be too complex.''], Inr ())"
    using r
    by (simp add: FixError_execute_def FixError_try_run demo_healthy demo_pasted demo_analysed
        no_fixes_run)
  have "\<not> (\<exists>ev \<in> set (fst (FixError_execute (answering empty_cause_response))). is_panel ev)"
    by (simp add: run analysis_calls_def is_panel_def)
  with r run demo_healthy(1) [of empty_cause_response] demo_pasted(1) [of empty_cause_response]
    demo_analysed(1) [of empty_cause_response "''ZeroDivisionError''"]
  show ?thesis by simp
qed

text \<open>
  C3, amended. When the backend is healthy, a log was pasted, the analysis response has a
  status other than \<open>failed\<close> and \<open>fixes\<close> is absent or empty, \<open>execute\<close> shows the
  warning, opens the root-cause panel exactly when \<open>root_cause_analysis\<close> is present and
  not the empty string, shows no quick pick, makes no apply-fix request, and returns.
\<close>

theorem no_fixes_warns_and_shows_nonempty_root_cause:
  assumes healthy: "snd (checkHealth env) = Inr True"
    and pasted: "input_box_answer env = Inr (Some errorLog)" "errorLog \<noteq> []"
    and analysed: "analysis_answer env errorLog = Inr result"
    and not_failed: "status result \<noteq> ''failed''"
    and none: "fixes result = None \<or> fixes result = Some []"
  shows "(\<exists>after. fst (FixError_execute env) =
            analysis_calls env errorLog
              @ [ProgressReport ''Analysis complete!'',
                 ShowWarningMessage
                   ''rootCauseAI: No fixes generated. The error might be too complex.'']
              @ after)
         \<and> ((\<exists>ev \<in> set (fst (FixError_execute env)). is_panel ev) \<longleftrightarrow>
              (\<exists>a. root_cause_analysis result = Some a \<and> a \<noteq> []))
         \<and> (\<forall>a. root_cause_analysis result = Some a \<and> a \<noteq> []
                \<and> create_panel env ''rootCauseAnalysis'' = Inr () \<longrightarrow>
              FixError_execute env =
                (analysis_calls env errorLog
                   @ [ProgressReport ''Analysis complete!'',
                      ShowWarningMessage
                        ''rootCauseAI: No fixes generated. The error might be too complex.'',
                      CreateWebviewPanel ''rootCauseAnalysis'' ''Root Cause Analysis'',
                      SetWebviewHtml (RootCauseHtml (escapeHtml a))], Inr ()))
         \<and> (root_cause_analysis result = None \<or> root_cause_analysis result = Some [] \<longrightarrow>
              FixError_execute env =
                (analysis_calls env errorLog
                   @ [ProgressReport ''Analysis complete!'',
                      ShowWarningMessage
                        ''rootCauseAI: No fixes generated. The error might be too complex.''],
                 Inr ()))
         \<and> \<not> (\<exists>ev \<in> set (fst (FixError_execute env)). is_fix_selection ev)
         \<and> \<not> (\<exists>ev \<in> set (fst (FixError_execute env)). is_apply_request ev)
         \<and> snd (FixError_execute env) = Inr ()"
proof -
  have body: "FixError_try env =
      (analysis_calls env errorLog @ ProgressReport ''Analysis complete!''
         # fst (no_fixes env result), snd (no_fixes env result))"
    using assms by (auto simp: FixError_try_run)
  have calls: "\<forall>ev \<in> set (analysis_calls env errorLog).
      \<not> is_panel ev \<and> \<not> is_fix_selection ev \<and> \<not> is_apply_request ev"
    by (simp add: analysis_calls_def is_panel_def is_fix_selection_def is_apply_request_def)
  show ?thesis
  proof (cases "root_cause_analysis result")
    case None
    with body calls show ?thesis
      by (auto simp: FixError_execute_def no_fixes_run is_panel_def is_fix_selection_def
          is_apply_request_def)
  next
    case (Some a)
    show ?thesis
    proof (cases "a = []")
      case True
      with Some body calls show ?thesis
        by (auto simp: FixError_execute_def no_fixes_run is_panel_def is_fix_selection_def
            is_apply_request_def)
    next
      case False
      show ?thesis
      proof (cases "create_panel env ''rootCauseAnalysis''")
        case (Inl e)
        with Some False body calls show ?thesis
          by (auto simp: FixError_execute_def no_fixes_run is_panel_def is_fix_selection_def
              is_apply_request_def showError_def emit_def)
      next
        case (Inr u)
        with Some False body calls show ?thesis
          by (auto simp: FixError_execute_def no_fixes_run is_panel_def is_fix_selection_def
              is_apply_request_def)
      qed
    qed
  qed
qed

theorem no_fixes_warns_and_shows_nonempty_root_cause_witness:
  "snd (checkHealth (answering no_fix_response)) = Inr True
   \<and> input_box_answer (answering no_fix_response) = Inr (Some ''ZeroDivisionError'')
   \<and> analysis_answer (answering no_fix_response) ''ZeroDivisionError'' = Inr no_fix_response
   \<and> status no_fix_response \<noteq> ''failed''
   \<and> fixes no_fix_response = Some []
   \<and> root_cause_analysis no_fix_response = Some ''n is zero''
   \<and> create_panel (answering no_fix_response) ''rootCauseAnalysis'' = Inr ()
   \<and> FixError_execute (answering no_fix_response) =
        (analysis_calls (answering no_fix_response) ''ZeroDivisionError''
           @ [ProgressReport ''Analysis complete!'',
              ShowWarningMessage
                ''rootCauseAI: No fixes generated. The error might be too complex.'',
              CreateWebviewPanel ''rootCauseAnalysis'' ''Root Cause Analysis'',
              SetWebviewHtml (RootCauseHtml (escapeHtml ''n is zero''))], Inr ())
   \<and> analysis_answer (answering (no_fix_response\<lparr>root_cause_analysis := None\<rparr>))
        ''ZeroDivisionError'' = Inr (no_fix_response\<lparr>root_cause_analysis := None\<rparr>)
   \<and> fixes (no_fix_response\<lparr>root_cause_analysis := None\<rparr>) = Some []
   \<and> FixError_execute (answering (no_fix_response\<lparr>root_cause_analysis := None\<rparr>)) =
        (analysis_calls (answering (no_fix_response\<lparr>root_cause_analysis := None\<rparr>))
           ''ZeroDivisionError''
           @ [ProgressReport ''Analysis complete!'',
              ShowWarningMessage
                ''rootCauseAI: No fixes generated. The error might be too complex.''], Inr ())"
proof -
  let ?none = "no_fix_response\<lparr>root_cause_analysis := None\<rparr>"
  have r: "status no_fix_response \<noteq> ''failed''" "fixes no_fix_response = Some []"
    "root_cause_analysis no_fix_response = Some ''n is zero''"
    "create_panel (answering no_fix_response) ''rootCauseAnalysis'' = Inr ()"
    by (simp_all add: no_fix_response_def demo_response_def answering_def demo_env_def)
  have r': "status ?none \<noteq> ''failed''" "fixes ?none = Some []"
    "root_cause_analysis ?none = None"
    by (simp_all add: no_fix_response_def demo_response_def)
  have ne: "''ZeroDivisionError'' \<noteq> []" "''n is zero'' \<noteq> []" by simp_all
  have none: "fixes no_fix_response = None \<or> fixes no_fix_response = Some []"
    "fixes ?none = None \<or> fixes ?none = Some []"
    using r(2) r'(2) by simp_all
  from no_fixes_warns_and_shows_nonempty_root_cause
    [OF demo_healthy(1) demo_pasted(1) ne(1) demo_analysed(1) r(1) none(1)] r(3,4) ne(2)
  have a: "FixError_execute (answering no_fix_response) =
        (analysis_calls (answering no_fix_response) ''ZeroDivisionError''
           @ [ProgressReport ''Analysis complete!'',
              ShowWarningMessage
                ''rootCauseAI: No fixes generated. The error might be too complex.'',
              CreateWebviewPanel ''rootCauseAnalysis'' ''Root Cause Analysis'',
              SetWebviewHtml (RootCauseHtml (escapeHtml ''n is zero''))], Inr ())"
    by blast
  from no_fixes_warns_and_shows_nonempty_root_cause
    [OF demo_healthy(1) demo_pasted(1) ne(1) demo_analysed(1) r'(1) none(2)] r'(3)
  have b: "FixError_execute (answering ?none) =
        (analysis_calls (answering ?none) ''ZeroDivisionError''
           @ [ProgressReport ''Analysis complete!'',
              ShowWarningMessage
                ''rootCauseAI: No fixes generated. The error might be too complex.''], Inr ())"
    by blast
  from a b r r'(2) demo_healthy(1) [of no_fix_response] demo_pasted(1) [of no_fix_response]
    demo_analysed(1) [of no_fix_response "''ZeroDivisionError''"]
    demo_analysed(1) [of ?none "''ZeroDivisionError''"]
  show ?thesis by simp
qed

subsection \<open>Fix command: when a fix is applied\<close>

lemma FixError_try_apply_request:
  assumes "\<exists>ev \<in> set (fst (FixError_try env)). is_apply_request ev"
  shows "\<exists>errorLog result fs.
     input_box_answer env = Inr (Some errorLog)
     \<and> analysis_answer env errorLog = Inr result
     \<and> fixes result = Some fs
     \<and> fst (FixError_try env) =
         analysis_calls env errorLog @ ProgressReport ''Analysis complete!''
           # fst (showAndApplyFixes env fs (root_cause_analysis result))
     \<and> (\<exists>ev \<in> set (fst (showAndApplyFixes env fs (root_cause_analysis result))).
           is_apply_request ev)"
proof -
  have quiet: "\<And>l ev. ev \<in> set (analysis_calls env l) \<Longrightarrow> \<not> is_apply_request ev"
    "\<And>r ev. ev \<in> set (fst (no_fixes env r)) \<Longrightarrow> \<not> is_apply_request ev"
    using calls_quiet no_fixes_quiet by blast+
  from assms show ?thesis
    by (auto simp: FixError_try_run is_apply_request_def
        split: if_splits sum.splits option.splits dest: quiet)
qed

text \<open>
  C5. In every run of the Fix command, an apply-fix request is preceded by the quick pick
  over the items built from the fixes of the analysis response (in their order:
  the fixes of the items are the list itself), answered with an item, and then by the
  confirmation dialog, answered \<open>Yes\<close>; the request carries the fix of the chosen item, and
  it is the only one. A cancelled quick pick ends \<open>showAndApplyFixes\<close> at once; with the
  quick pick cancelled or the confirmation not answered \<open>Yes\<close>, \<open>execute\<close> makes no
  apply-fix request and returns.
\<close>

theorem apply_only_after_selection_and_confirmation:
  "((\<exists>ev \<in> set (fst (FixError_execute env)). is_apply_request ev) \<longrightarrow>
      (\<exists>errorLog result fs sel before between after.
         input_box_answer env = Inr (Some errorLog)
         \<and> analysis_answer env errorLog = Inr result
         \<and> fixes result = Some fs
         \<and> fst (FixError_execute env) =
             before @ ShowQuickPick (quickPickItems fs) ''Select a fix to apply'' # between
               @ ShowModalMessage ''rootCauseAI: Apply this fix to your code?'' [''Yes'', ''No'']
               # WithProgress ''rootCauseAI: Applying fix...''
               # HttpPost ''/apply-fix''
                   (ApplyFixBody (fix sel) (detectLanguage (file_path (fix sel))) False)
               # after
         \<and> (\<forall>ev \<in> set (before @ between @ after). \<not> is_apply_request ev)
         \<and> quick_pick_answer env (quickPickItems fs) = Inr (Some sel)
         \<and> modal_answer env ''rootCauseAI: Apply this fix to your code?'' = Inr (Some ''Yes'')))
   \<and> map fix (quickPickItems fs') = fs'
   \<and> (quick_pick_answer env (quickPickItems fs') = Inr None \<longrightarrow>
        showAndApplyFixes env fs' rc =
          ([ShowQuickPick (quickPickItems fs') ''Select a fix to apply''], Inr ()))
   \<and> ((\<forall>items. quick_pick_answer env items = Inr None)
        \<or> modal_answer env ''rootCauseAI: Apply this fix to your code?'' \<noteq> Inr (Some ''Yes'') \<longrightarrow>
        \<not> (\<exists>ev \<in> set (fst (FixError_execute env)). is_apply_request ev)
        \<and> snd (FixError_execute env) = Inr ())"
proof -
  have main: "\<exists>errorLog result fs sel before between after.
         input_box_answer env = Inr (Some errorLog)
         \<and> analysis_answer env errorLog = Inr result
         \<and> fixes result = Some fs
         \<and> fst (FixError_execute env) =
             before @ ShowQuickPick (quickPickItems fs) ''Select a fix to apply'' # between
               @ ShowModalMessage ''rootCauseAI: Apply this fix to your code?'' [''Yes'', ''No'']
               # WithProgress ''rootCauseAI: Applying fix...''
               # HttpPost ''/apply-fix''
                   (ApplyFixBody (fix sel) (detectLanguage (file_path (fix sel))) False)
               # after
         \<and> (\<forall>ev \<in> set (before @ between @ after). \<not> is_apply_request ev)
         \<and> quick_pick_answer env (quickPickItems fs) = Inr (Some sel)
         \<and> modal_answer env ''rootCauseAI: Apply this fix to your code?'' = Inr (Some ''Yes'')"
    if req: "\<exists>ev \<in> set (fst (FixError_execute env)). is_apply_request ev"
  proof -
    let ?handled = "case snd (FixError_try env) of
            Inl e \<Rightarrow> [ShowErrorMessage (''rootCauseAI: Error: '' @ message e),
                       ConsoleError ''Fix error command failed:'' e]
          | Inr u \<Rightarrow> []"
    have handled: "\<forall>ev \<in> set ?handled. \<not> is_apply_request ev"
      by (cases "snd (FixError_try env)") (simp_all add: is_apply_request_def)
    with req have "\<exists>ev \<in> set (fst (FixError_try env)). is_apply_request ev"
      by (auto simp: FixError_execute_trace)
    from FixError_try_apply_request [OF this] obtain errorLog result fs where
      a: "input_box_answer env = Inr (Some errorLog)"
        "analysis_answer env errorLog = Inr result" "fixes result = Some fs"
      and t: "fst (FixError_try env) =
         analysis_calls env errorLog @ ProgressReport ''Analysis complete!''
           # fst (showAndApplyFixes env fs (root_cause_analysis result))"
      and r: "\<exists>ev \<in> set (fst (showAndApplyFixes env fs (root_cause_analysis result))).
           is_apply_request ev"
      by blast
    from showAndApplyFixes_shape [OF r] obtain sel between after where
      s: "fst (showAndApplyFixes env fs (root_cause_analysis result)) =
       ShowQuickPick (quickPickItems fs) ''Select a fix to apply'' # between
         @ ShowModalMessage ''rootCauseAI: Apply this fix to your code?'' [''Yes'', ''No'']
         # WithProgress ''rootCauseAI: Applying fix...''
         # HttpPost ''/apply-fix''
             (ApplyFixBody (fix sel) (detectLanguage (file_path (fix sel))) False)
         # after"
      and q: "\<forall>ev \<in> set (between @ after). \<not> is_apply_request ev"
      and ans: "quick_pick_answer env (quickPickItems fs) = Inr (Some sel)"
        "modal_answer env ''rootCauseAI: Apply this fix to your code?'' = Inr (Some ''Yes'')"
      by blast
    let ?before = "analysis_calls env errorLog @ [ProgressReport ''Analysis complete!'']"
    have "fst (FixError_execute env) =
        ?before @ ShowQuickPick (quickPickItems fs) ''Select a fix to apply'' # between
          @ ShowModalMessage ''rootCauseAI: Apply this fix to your code?'' [''Yes'', ''No'']
          # WithProgress ''rootCauseAI: Applying fix...''
          # HttpPost ''/apply-fix''
              (ApplyFixBody (fix sel) (detectLanguage (file_path (fix sel))) False)
          # (after @ ?handled)"
      by (simp add: FixError_execute_trace t s)
    moreover have "\<forall>ev \<in> set (?before @ between @ (after @ ?handled)). \<not> is_apply_request ev"
      using q handled calls_quiet [of env errorLog]
      by (auto simp: is_apply_request_def)
    ultimately show ?thesis using a ans by blast
  qed
  have cancelled: "showAndApplyFixes env fs' rc =
          ([ShowQuickPick (quickPickItems fs') ''Select a fix to apply''], Inr ())"
    if "quick_pick_answer env (quickPickItems fs') = Inr None"
    using that by (simp add: showAndApplyFixes_run)
  have declined: "\<not> (\<exists>ev \<in> set (fst (FixError_execute env)). is_apply_request ev)"
    if "(\<forall>items. quick_pick_answer env items = Inr None)
        \<or> modal_answer env ''rootCauseAI: Apply this fix to your code?'' \<noteq> Inr (Some ''Yes'')"
    using that main by fastforce
  from main cancelled declined quickPickItems_order [of fs'] FixError_execute_returns [of env]
  show ?thesis by blast
qed

lemma demo_apply_requested:
  "\<exists>ev \<in> set (fst (FixError_execute demo_env)). is_apply_request ev"
proof -
  have items: "quickPickItems [demo_fix] \<noteq> []"
    by (simp add: quickPickItems_def)
  then obtain x xs where x: "quickPickItems [demo_fix] = x # xs"
    by (cases "quickPickItems [demo_fix]") auto
  have pick: "quick_pick_answer demo_env (quickPickItems [demo_fix]) = Inr (Some x)"
    by (simp add: demo_env_def x)
  have yes: "modal_answer demo_env ''rootCauseAI: Apply this fix to your code?''
      = Inr (Some ''Yes'')"
    by (simp add: demo_env_def)
  have diff: "snd (showDiff demo_env (fix x)) = Inr ()"
    by (simp add: showDiff_run demo_env_def)
  obtain rest where rest: "FixError_applyFix demo_env (fix x) =
       (WithProgress ''rootCauseAI: Applying fix...''
          # HttpPost ''/apply-fix''
              (ApplyFixBody (fix x) (detectLanguage (file_path (fix x))) False)
          # rest, Inr ())"
    using FixError_applyFix_shape [of demo_env "fix x"] by blast
  have "HttpPost ''/apply-fix''
          (ApplyFixBody (fix x) (detectLanguage (file_path (fix x))) False)
        \<in> set (fst (showAndApplyFixes demo_env [demo_fix] (Some ''n is zero'')))"
    by (simp add: showAndApplyFixes_run pick yes diff rest)
  moreover have "fst (FixError_try demo_env) =
      analysis_calls demo_env ''ZeroDivisionError'' @ ProgressReport ''Analysis complete!''
        # fst (showAndApplyFixes demo_env [demo_fix] (Some ''n is zero''))"
    by (simp add: FixError_try_run demo_healthy demo_pasted demo_analysed demo_response_def)
  ultimately have "HttpPost ''/apply-fix''
          (ApplyFixBody (fix x) (detectLanguage (file_path (fix x))) False)
        \<in> set (fst (FixError_execute demo_env))"
    by (simp add: FixError_execute_trace)
  moreover have "is_apply_request (HttpPost ''/apply-fix''
          (ApplyFixBody (fix x) (detectLanguage (file_path (fix x))) False))"
    by (simp add: is_apply_request_def)
  ultimately show ?thesis by blast
qed

theorem apply_only_after_selection_and_confirmation_witness:
  "(\<exists>ev \<in> set (fst (FixError_execute demo_env)). is_apply_request ev)
   \<and> (\<exists>errorLog result fs sel before between after.
         input_box_answer demo_env = Inr (Some errorLog)
         \<and> analysis_answer demo_env errorLog = Inr result
         \<and> fixes result = Some fs
         \<and> fst (FixError_execute demo_env) =
             before @ ShowQuickPick (quickPickItems fs) ''Select a fix to apply'' # between
               @ ShowModalMessage ''rootCauseAI: Apply this fix to your code?'' [''Yes'', ''No'']
               # WithProgress ''rootCauseAI: Applying fix...''
               # HttpPost ''/apply-fix''
                   (ApplyFixBody (fix sel) (detectLanguage (file_path (fix sel))) False)
               # after
         \<and> quick_pick_answer demo_env (quickPickItems fs) = Inr (Some sel)
         \<and> modal_answer demo_env ''rootCauseAI: Apply this fix to your code?''
              = Inr (Some ''Yes''))
   \<and> modal_answer declining ''rootCauseAI: Apply this fix to your code?'' \<noteq> Inr (Some ''Yes'')
   \<and> \<not> (\<exists>ev \<in> set (fst (FixError_execute declining)). is_apply_request ev)
   \<and> snd (FixError_execute declining) = Inr ()
   \<and> quick_pick_answer cancelling (quickPickItems [demo_fix]) = Inr None
   \<and> showAndApplyFixes cancelling [demo_fix] None =
        ([ShowQuickPick (quickPickItems [demo_fix]) ''Select a fix to apply''], Inr ())
   \<and> \<not> (\<exists>ev \<in> set (fst (FixError_execute cancelling)). is_apply_request ev)
   \<and> snd (FixError_execute cancelling) = Inr ()"
proof -
  have no: "modal_answer declining ''rootCauseAI: Apply this fix to your code?''
      \<noteq> Inr (Some ''Yes'')"
    by (simp add: declining_def demo_env_def)
  have cancel: "\<forall>items. quick_pick_answer cancelling items = Inr None"
    by (simp add: cancelling_def demo_env_def)
  from apply_only_after_selection_and_confirmation [of demo_env "[]" None]
    demo_apply_requested
  have a: "\<exists>errorLog result fs sel before between after.
         input_box_answer demo_env = Inr (Some errorLog)
         \<and> analysis_answer demo_env errorLog = Inr result
         \<and> fixes result = Some fs
         \<and> fst (FixError_execute demo_env) =
             before @ ShowQuickPick (quickPickItems fs) ''Select a fix to apply'' # between
               @ ShowModalMessage ''rootCauseAI: Apply this fix to your code?'' [''Yes'', ''No'']
               # WithProgress ''rootCauseAI: Applying fix...''
               # HttpPost ''/apply-fix''
                   (ApplyFixBody (fix sel) (detectLanguage (file_path (fix sel))) False)
               # after
         \<and> quick_pick_answer demo_env (quickPickItems fs) = Inr (Some sel)
         \<and> modal_answer demo_env ''rootCauseAI: Apply this fix to your code?''
              = Inr (Some ''Yes'')"
    by blast
  from apply_only_after_selection_and_confirmation [of declining "[]" None] no
  have b: "\<not> (\<exists>ev \<in> set (fst (FixError_execute declining)). is_apply_request ev)"
    "snd (FixError_execute declining) = Inr ()"
    by blast+
  from apply_only_after_selection_and_confirmation [of cancelling "[demo_fix]" None] cancel
  have c: "showAndApplyFixes cancelling [demo_fix] None =
        ([ShowQuickPick (quickPickItems [demo_fix]) ''Select a fix to apply''], Inr ())"
    "\<not> (\<exists>ev \<in> set (fst (FixError_execute cancelling)). is_apply_request ev)"
    "snd (FixError_execute cancelling) = Inr ()"
    by blast+
  from a b c no cancel demo_apply_requested show ?thesis
    by blast
qed





subsection \<open>All commands: exceptions end in a notification\<close>




subsection \<open>Numbers\<close>

text \<open>\<open>ilog2\<close> is the binary exponent: \<open>2^(ilog2 x) \<le> x < 2^(ilog2 x + 1)\<close>.\<close>

lemma ilog2_bounds:
  assumes "0 < x"
  shows "2 powi (ilog2 x) \<le> x \<and> x < 2 powi (ilog2 x + 1)"
proof (cases "1 \<le> x")
  case True
  define n where "n = nat \<lfloor>x\<rfloor>"
  have n: "0 < n" "rat_of_nat n \<le> x" "x < rat_of_nat n + 1"
    using True unfolding n_def by linarith+
  from floorlog_bounds [of n 2] n(1)
  have b: "2 ^ (floorlog 2 n - 1) \<le> n" "n < 2 ^ floorlog 2 n"
    by simp_all
  have fpos: "0 < floorlog 2 n"
    using n(1) by (simp add: floorlog_def)
  have i: "ilog2 x = int (floorlog 2 n) - 1"
    using True by (simp add: ilog2_def n_def)
  have lo: "(2::rat) powi (ilog2 x) = 2 ^ (floorlog 2 n - 1)"
    using fpos by (simp add: i power_int_def nat_diff_distrib' of_nat_diff)
  have hi: "(2::rat) powi (ilog2 x + 1) = 2 ^ floorlog 2 n"
    by (simp add: i power_int_def)
  have "(2::rat) ^ (floorlog 2 n - 1) = rat_of_nat (2 ^ (floorlog 2 n - 1))"
    by simp
  also have "\<dots> \<le> rat_of_nat n"
    using b(1) by (rule of_nat_mono)
  also note n(2)
  finally have l: "(2::rat) ^ (floorlog 2 n - 1) \<le> x" .
  have "n + 1 \<le> 2 ^ floorlog 2 n"
    using b(2) by simp
  then have "rat_of_nat (n + 1) \<le> rat_of_nat (2 ^ floorlog 2 n)"
    by (rule of_nat_mono)
  also have "\<dots> = (2::rat) ^ floorlog 2 n"
    by simp
  finally have "rat_of_nat n + 1 \<le> (2::rat) ^ floorlog 2 n"
    by simp
  with n(3) have h: "x < (2::rat) ^ floorlog 2 n"
    by linarith
  from l h show ?thesis
    by (simp add: lo hi)
next
  case False
  define y where "y = 1 / x"
  define k where "k = nat (\<lceil>y\<rceil> - 1)"
  have y: "1 < y" "x = 1 / y"
    using assms False by (simp_all add: y_def)
  have k: "0 < k" "rat_of_nat k < y" "y \<le> rat_of_nat k + 1"
    using y(1) unfolding k_def by linarith+
  from floorlog_bounds [of k 2] k(1)
  have b: "2 ^ (floorlog 2 k - 1) \<le> k" "k < 2 ^ floorlog 2 k"
    by simp_all
  have fpos: "0 < floorlog 2 k"
    using k(1) by (simp add: floorlog_def)
  have i: "ilog2 x = - int (floorlog 2 k)"
    using False by (simp add: ilog2_def k_def y_def)
  have lo: "(2::rat) powi (ilog2 x) = 1 / 2 ^ floorlog 2 k"
    by (simp add: i power_int_minus field_simps)
  have "ilog2 x + 1 = - int (floorlog 2 k - 1)"
    using fpos by (simp add: i)
  then have "(2::rat) powi (ilog2 x + 1) = 2 powi (- int (floorlog 2 k - 1))"
    by simp
  also have "\<dots> = 1 / 2 ^ (floorlog 2 k - 1)"
    by (simp only: power_int_minus power_int_of_nat inverse_eq_divide)
  finally have hi: "(2::rat) powi (ilog2 x + 1) = 1 / 2 ^ (floorlog 2 k - 1)" .
  have "k + 1 \<le> 2 ^ floorlog 2 k"
    using b(2) by simp
  then have "rat_of_nat (k + 1) \<le> rat_of_nat (2 ^ floorlog 2 k)"
    by (rule of_nat_mono)
  also have "\<dots> = (2::rat) ^ floorlog 2 k"
    by simp
  finally have "rat_of_nat k + 1 \<le> (2::rat) ^ floorlog 2 k"
    by simp
  with k(3) have "y \<le> 2 ^ floorlog 2 k"
    by linarith
  then have "1 / 2 ^ floorlog 2 k \<le> 1 / y"
    using y(1) by (intro frac_le) simp_all
  then have l: "1 / 2 ^ floorlog 2 k \<le> x"
    by (simp only: y(2))
  have "(2::rat) ^ (floorlog 2 k - 1) = rat_of_nat (2 ^ (floorlog 2 k - 1))"
    by simp
  also have "\<dots> \<le> rat_of_nat k"
    using b(1) by (rule of_nat_mono)
  also note k(2)
  finally have "2 ^ (floorlog 2 k - 1) < y" .
  then have "1 / y < 1 / 2 ^ (floorlog 2 k - 1)"
    by (intro frac_less2) simp_all
  then have h: "x < 1 / 2 ^ (floorlog 2 k - 1)"
    by (simp only: y(2))
  from l h show ?thesis
    by (simp add: lo hi)
qed



















end
